theory Spec2Isabelle
  imports Main
begin

section \<open>JavaScript values\<close>

text \<open>
  The TypeScript annotations of the client are erased at run time, and everything that
  arrives from the network (\<^verbatim>\<open>response.data\<close>, a parsed WebSocket frame, a rejection
  value) is typed \<^verbatim>\<open>any\<close>. Such values are modelled as parsed JSON. The value
  \<^verbatim>\<open>undefined\<close> (a property that is absent) is \<open>None\<close> of \<open>json option\<close>.
  Numbers are integers here: fractions are not represented. An object is the list of
  its own properties, each key once; a property is read with \<open>map_of\<close>.
\<close>

datatype json =
    JNull
  | JBool bool
  | JNum int
  | JStr string
  | JArr "json list"
  | JObj "(string \<times> json) list"

text \<open>JavaScript truthiness: \<^verbatim>\<open>null\<close>, \<^verbatim>\<open>false\<close>, \<^verbatim>\<open>0\<close> and \<^verbatim>\<open>""\<close> are falsy.\<close>

fun truthy :: "json \<Rightarrow> bool" where
  "truthy JNull = False"
| "truthy (JBool b) = b"
| "truthy (JNum n) = (n \<noteq> 0)"
| "truthy (JStr s) = (s \<noteq> [])"
| "truthy (JArr xs) = True"
| "truthy (JObj fs) = True"

text \<open>\<^verbatim>\<open>a || b\<close> where both sides may be \<^verbatim>\<open>undefined\<close>.\<close>

definition or_js :: "json option \<Rightarrow> json option \<Rightarrow> json option" where
  "or_js a b = (case a of None \<Rightarrow> b | Some v \<Rightarrow> (if truthy v then Some v else b))"

text \<open>\<^verbatim>\<open>a || d\<close> where the right operand \<open>d\<close> is a value (a literal default).\<close>

definition or_else :: "json option \<Rightarrow> json \<Rightarrow> json" where
  "or_else a d = (case a of None \<Rightarrow> d | Some v \<Rightarrow> (if truthy v then v else d))"

text \<open>
  What the code can throw or a promise can be rejected with: the \<^verbatim>\<open>TypeError\<close> of a
  property read on \<^verbatim>\<open>null\<close>, the \<^verbatim>\<open>SyntaxError\<close> of \<^verbatim>\<open>JSON.parse\<close>, an
  \<^verbatim>\<open>Error\<close> built by \<^verbatim>\<open>new Error(m)\<close> (kept with the argument \<open>m\<close> as it was
  passed; when \<open>m\<close> is a string it is the error's message), or any other value (the
  rejection of a request, for axios an object with an optional \<^verbatim>\<open>response\<close>).
\<close>

datatype thrown = TypeError | SyntaxError | Error json | Rejection json

text \<open>\<^verbatim>\<open>v.k\<close>: reading a property of \<^verbatim>\<open>null\<close> throws, a primitive has none of the
  properties read by this code.\<close>

fun get_prop :: "json \<Rightarrow> string \<Rightarrow> thrown + json option" where
  "get_prop JNull k = Inl TypeError"
| "get_prop (JObj fs) k = Inr (map_of fs k)"
| "get_prop v k = Inr None"

text \<open>\<^verbatim>\<open>v?.k\<close>: optional chaining gives \<^verbatim>\<open>undefined\<close> on \<^verbatim>\<open>null\<close> and \<^verbatim>\<open>undefined\<close>.\<close>

fun opt_chain :: "json option \<Rightarrow> string \<Rightarrow> json option" where
  "opt_chain (Some (JObj fs)) k = map_of fs k"
| "opt_chain v k = None"

text \<open>\<^verbatim>\<open>v.k\<close> where \<open>v\<close> is known not to be \<^verbatim>\<open>null\<close> (an earlier read of a property of
  \<open>v\<close> has returned).\<close>

definition field :: "json \<Rightarrow> string \<Rightarrow> json option" where
  "field v k = opt_chain (Some v) k"

section \<open>Data model (types/generation)\<close>

text \<open>
  A \<^verbatim>\<open>Date\<close> is either a reading of the clock (\<^verbatim>\<open>new Date()\<close>, milliseconds) or
  \<^verbatim>\<open>new Date(v)\<close> for a frame's value \<open>v\<close>, whose conversion is not modelled.
\<close>

datatype date = DateAt nat | DateFrom json

datatype status = Pending | InProgress | Completed | Failed

record ContactInfo =
  email :: "string option"
  phone :: "string option"
  address :: "string option"

record BusinessData =
  businessName :: string
  businessDescription :: string
  businessCategory :: string
  targetAudience :: string
  websitePurpose :: string
  contactInfo :: "ContactInfo option"
  additionalInfo :: "string option"

text \<open>Field names carry the record as a prefix, since the source reuses
  \<^verbatim>\<open>id\<close>, \<^verbatim>\<open>status\<close>, \<^verbatim>\<open>progress\<close>, \<^verbatim>\<open>error\<close> and \<^verbatim>\<open>message\<close> across interfaces.\<close>

record GenerationStep =
  step_id :: string
  step_name :: string
  step_status :: status
  step_progress :: json
  step_startedAt :: "date option"
  step_completedAt :: "date option"
  step_error :: "string option"

record GenerationError =
  err_message :: json
  err_code :: json
  err_details :: "json option"

record GenerationProgress =
  p_generationId :: json
  p_progress :: json
  p_step :: json
  p_stepProgress :: json
  p_message :: "json option"
  p_timestamp :: date

record GenerationState =
  gen_id :: json
  gen_status :: status
  gen_progress :: json
  gen_startedAt :: date
  gen_completedAt :: "date option"
  gen_businessData :: BusinessData
  gen_steps :: "GenerationStep list"
  gen_result :: "json option"
  gen_error :: "GenerationError option"

section \<open>The generation slice of the store\<close>

record GenerationSlice =
  currentGeneration :: "GenerationState option"
  generationHistory :: "GenerationState list"
  isGenerating :: bool
  wsConnected :: bool

definition initial_slice :: GenerationSlice where
  "initial_slice =
     \<lparr>currentGeneration = None, generationHistory = [], isGenerating = False,
      wsConnected = False\<rparr>"

text \<open>The four phases every new session starts with.\<close>

definition initial_steps :: "GenerationStep list" where
  "initial_steps =
     [\<lparr>step_id = ''content'', step_name = ''Content Generation'', step_status = Pending,
       step_progress = JNum 0, step_startedAt = None, step_completedAt = None,
       step_error = None\<rparr>,
      \<lparr>step_id = ''design'', step_name = ''Design System'', step_status = Pending,
       step_progress = JNum 0, step_startedAt = None, step_completedAt = None,
       step_error = None\<rparr>,
      \<lparr>step_id = ''structure'', step_name = ''Website Structure'', step_status = Pending,
       step_progress = JNum 0, step_startedAt = None, step_completedAt = None,
       step_error = None\<rparr>,
      \<lparr>step_id = ''quality'', step_name = ''Quality Check'', step_status = Pending,
       step_progress = JNum 0, step_startedAt = None, step_completedAt = None,
       step_error = None\<rparr>]"

definition newGeneration :: "json \<Rightarrow> nat \<Rightarrow> BusinessData \<Rightarrow> GenerationState" where
  "newGeneration generationId now businessData =
     \<lparr>gen_id = generationId, gen_status = InProgress, gen_progress = JNum 0,
      gen_startedAt = DateAt now, gen_completedAt = None,
      gen_businessData = businessData, gen_steps = initial_steps,
      gen_result = None, gen_error = None\<rparr>"

text \<open>
  \<^verbatim>\<open>apiError?.response?.data?.detail\<close> for the value caught by the inner handler
  of \<^verbatim>\<open>startGeneration\<close>. The errors the runtime throws carry no \<^verbatim>\<open>response\<close>.
\<close>

fun error_detail :: "thrown \<Rightarrow> json option" where
  "error_detail (Rejection v) =
     opt_chain (opt_chain (opt_chain (Some v) ''response'') ''data'') ''detail''"
| "error_detail e = None"

definition generic_start_message :: json where
  "generic_start_message = JStr ''Failed to start website generation''"

text \<open>
  The body of the inner \<^verbatim>\<open>try\<close> of \<^verbatim>\<open>startGeneration\<close>. The request is the
  environment's: \<open>api\<close> is what \<^verbatim>\<open>await generationApi.startGeneration(..)\<close> gives,
  \<open>Inr\<close> the response data or \<open>Inl\<close> the rejection. \<open>uuid\<close> is what \<^verbatim>\<open>uuidv4()\<close>
  would return and \<open>now\<close> the clock.
\<close>

definition startGeneration_request ::
  "thrown + json \<Rightarrow> string \<Rightarrow> nat \<Rightarrow> BusinessData \<Rightarrow> GenerationSlice
     \<Rightarrow> thrown + GenerationSlice" where
  "startGeneration_request api uuid now businessData s =
     (case api of
        Inl apiError \<Rightarrow> Inl apiError
      | Inr response \<Rightarrow>
          (case get_prop response ''generation_id'' of
             Inl e \<Rightarrow> Inl e
           | Inr g \<Rightarrow>
               Inr (s\<lparr>currentGeneration :=
                      Some (newGeneration (or_else g (JStr uuid)) now businessData)\<rparr>)))"

text \<open>
  \<^verbatim>\<open>startGeneration\<close>: the first component is how the returned promise settles
  (\<open>Inl\<close> the rejection), the second the store afterwards. The call is taken as one
  step: no other action runs while the request is awaited.
\<close>

definition startGeneration ::
  "thrown + json \<Rightarrow> string \<Rightarrow> nat \<Rightarrow> BusinessData \<Rightarrow> GenerationSlice
     \<Rightarrow> (thrown + unit) \<times> GenerationSlice" where
  "startGeneration api uuid now businessData s =
     (let s1 = s\<lparr>isGenerating := True\<rparr> in
      case startGeneration_request api uuid now businessData s1 of
        Inr s2 \<Rightarrow> (Inr (), s2)
      | Inl apiError \<Rightarrow>
          (Inl (Error (or_else (error_detail apiError) generic_start_message)),
           s1\<lparr>isGenerating := False\<rparr>))"

definition updateProgress :: "GenerationProgress \<Rightarrow> GenerationSlice \<Rightarrow> GenerationSlice" where
  "updateProgress progress s =
     (case currentGeneration s of
        None \<Rightarrow> s
      | Some current \<Rightarrow>
          s\<lparr>currentGeneration := Some (current
              \<lparr>gen_progress := p_progress progress,
               gen_steps :=
                 map (\<lambda>step. if JStr (step_id step) = p_step progress
                       then step\<lparr>step_status := InProgress,
                                 step_progress := p_stepProgress progress\<rparr>
                       else step)
                   (gen_steps current)\<rparr>)\<rparr>)"

text \<open>The finalized session built by \<^verbatim>\<open>completeGeneration\<close>; the clock is read once.\<close>

definition completedGeneration :: "nat \<Rightarrow> json \<Rightarrow> GenerationState \<Rightarrow> GenerationState" where
  "completedGeneration now res current =
     current
       \<lparr>gen_status := Completed,
        gen_progress := JNum 100,
        gen_completedAt := Some (DateAt now),
        gen_result := Some res,
        gen_steps :=
          map (\<lambda>step. step\<lparr>step_status := Completed, step_progress := JNum 100,
                            step_completedAt := Some (DateAt now)\<rparr>)
            (gen_steps current)\<rparr>"

definition completeGeneration :: "nat \<Rightarrow> json \<Rightarrow> GenerationSlice \<Rightarrow> GenerationSlice" where
  "completeGeneration now res s =
     (case currentGeneration s of
        None \<Rightarrow> s
      | Some current \<Rightarrow>
          s\<lparr>currentGeneration := Some (completedGeneration now res current),
            generationHistory := completedGeneration now res current # generationHistory s,
            isGenerating := False\<rparr>)"

definition failGeneration :: "nat \<Rightarrow> GenerationError \<Rightarrow> GenerationSlice \<Rightarrow> GenerationSlice" where
  "failGeneration now err s =
     (case currentGeneration s of
        None \<Rightarrow> s
      | Some current \<Rightarrow>
          s\<lparr>currentGeneration :=
              Some (current\<lparr>gen_status := Failed, gen_error := Some err,
                            gen_completedAt := Some (DateAt now)\<rparr>),
            isGenerating := False\<rparr>)"

text \<open>
  What \<^verbatim>\<open>cancelGeneration\<close> does besides changing the store: the request it fires
  and, when that request is rejected later, the line its handler logs.
\<close>

datatype effect = CancelRequest json | ConsoleError thrown

definition cancelGeneration ::
  "thrown + json \<Rightarrow> GenerationSlice \<Rightarrow> GenerationSlice \<times> effect list" where
  "cancelGeneration remote s =
     (case currentGeneration s of
        None \<Rightarrow> (s, [])
      | Some current \<Rightarrow>
          (s\<lparr>currentGeneration := None, isGenerating := False\<rparr>,
           CancelRequest (gen_id current) #
             (case remote of Inl e \<Rightarrow> [ConsoleError e] | Inr r \<Rightarrow> [])))"

definition clearCurrentGeneration :: "GenerationSlice \<Rightarrow> GenerationSlice" where
  "clearCurrentGeneration s = s\<lparr>currentGeneration := None, isGenerating := False\<rparr>"

definition setWsConnected :: "bool \<Rightarrow> GenerationSlice \<Rightarrow> GenerationSlice" where
  "setWsConnected connected s = s\<lparr>wsConnected := connected\<rparr>"

subsection \<open>Sequences of store operations\<close>

text \<open>One call of a store action, with what the environment supplies to it.\<close>

datatype store_op =
    StartGeneration "thrown + json" string nat BusinessData
  | UpdateProgress GenerationProgress
  | CompleteGeneration nat json
  | FailGeneration nat GenerationError
  | CancelGeneration "thrown + json"
  | ClearCurrentGeneration

fun apply_op :: "store_op \<Rightarrow> GenerationSlice \<Rightarrow> GenerationSlice" where
  "apply_op (StartGeneration api uuid now bd) s = snd (startGeneration api uuid now bd s)"
| "apply_op (UpdateProgress p) s = updateProgress p s"
| "apply_op (CompleteGeneration now res) s = completeGeneration now res s"
| "apply_op (FailGeneration now err) s = failGeneration now err s"
| "apply_op (CancelGeneration remote) s = fst (cancelGeneration remote s)"
| "apply_op ClearCurrentGeneration s = clearCurrentGeneration s"

fun run :: "store_op list \<Rightarrow> GenerationSlice \<Rightarrow> GenerationSlice" where
  "run [] s = s"
| "run (op # ops) s = run ops (apply_op op s)"

text \<open>The operations driven by inbound frames of the channel.\<close>

fun inbound :: "store_op \<Rightarrow> bool" where
  "inbound (UpdateProgress p) = True"
| "inbound (CompleteGeneration now res) = True"
| "inbound (FailGeneration now err) = True"
| "inbound op = False"

fun is_complete :: "store_op \<Rightarrow> bool" where
  "is_complete (CompleteGeneration now res) = True"
| "is_complete op = False"

fun is_fail :: "store_op \<Rightarrow> bool" where
  "is_fail (FailGeneration now err) = True"
| "is_fail op = False"

definition terminal :: "status \<Rightarrow> bool" where
  "terminal st = (st = Completed \<or> st = Failed)"

text \<open>
  A progress event names a phase when its step is that phase's id (the comparison
  \<^verbatim>\<open>step.id === progress.step\<close> of \<^verbatim>\<open>updateProgress\<close>); no other operation names one.
\<close>

fun names_phase :: "string \<Rightarrow> store_op \<Rightarrow> bool" where
  "names_phase pid (UpdateProgress p) = (p_step p = JStr pid)"
| "names_phase pid op = False"

text \<open>
  \<^verbatim>\<open>result\<close> and \<^verbatim>\<open>error\<close> of the current session, read off the sequence of
  operations. A creation request succeeds when it resolves with a response that is not
  \<^verbatim>\<open>null\<close>; it then installs a fresh session. \<open>tracked_result ops r\<close> is the result
  expected after \<open>ops\<close> when it was \<open>r\<close> before: the payload of the last
  \<^verbatim>\<open>completeGeneration\<close> that no successful \<^verbatim>\<open>startGeneration\<close> follows, nothing
  when a successful \<^verbatim>\<open>startGeneration\<close> comes last of the two, and \<open>r\<close> when \<open>ops\<close>
  has neither. \<open>tracked_error\<close> is the same for \<^verbatim>\<open>failGeneration\<close>.
\<close>

fun start_succeeds :: "thrown + json \<Rightarrow> bool" where
  "start_succeeds (Inr response) = (response \<noteq> JNull)"
| "start_succeeds (Inl e) = False"

fun result_step :: "store_op \<Rightarrow> json option \<Rightarrow> json option" where
  "result_step (CompleteGeneration now res) r = Some res"
| "result_step (StartGeneration api uuid now bd) r = (if start_succeeds api then None else r)"
| "result_step op r = r"

fun error_step :: "store_op \<Rightarrow> GenerationError option \<Rightarrow> GenerationError option" where
  "error_step (FailGeneration now err) e = Some err"
| "error_step (StartGeneration api uuid now bd) e = (if start_succeeds api then None else e)"
| "error_step op e = e"

fun tracked_result :: "store_op list \<Rightarrow> json option \<Rightarrow> json option" where
  "tracked_result [] r = r"
| "tracked_result (op # ops) r = tracked_result ops (result_step op r)"

fun tracked_error :: "store_op list \<Rightarrow> GenerationError option \<Rightarrow> GenerationError option" where
  "tracked_error [] e = e"
| "tracked_error (op # ops) e = tracked_error ops (error_step op e)"

text \<open>The current session, when there is one, has the result \<open>r\<close> (the error \<open>e\<close>).\<close>

definition carries_result :: "GenerationSlice \<Rightarrow> json option \<Rightarrow> bool" where
  "carries_result s r =
     (case currentGeneration s of None \<Rightarrow> True | Some c \<Rightarrow> gen_result c = r)"

definition carries_error :: "GenerationSlice \<Rightarrow> GenerationError option \<Rightarrow> bool" where
  "carries_error s e =
     (case currentGeneration s of None \<Rightarrow> True | Some c \<Rightarrow> gen_error c = e)"

text \<open>The current session does not carry both a result and an error.\<close>

definition exclusive :: "GenerationSlice \<Rightarrow> bool" where
  "exclusive s =
     (case currentGeneration s of
        None \<Rightarrow> True
      | Some c \<Rightarrow> gen_result c = None \<or> gen_error c = None)"

section \<open>The channel (services/websocket-native)\<close>

datatype readyState = CONNECTING | OPEN | CLOSING | CLOSED

text \<open>The service object; its socket is kept by its \<^verbatim>\<open>readyState\<close>, \<open>None\<close> is \<^verbatim>\<open>null\<close>.\<close>

record WebSocketNativeService =
  socket :: "readyState option"
  reconnectAttempts :: nat
  maxReconnectAttempts :: nat
  reconnectInterval :: nat
  generationId :: "string option"
  pingInterval :: "nat option"

definition new_service :: WebSocketNativeService where
  "new_service =
     \<lparr>socket = None, reconnectAttempts = 0, maxReconnectAttempts = 5,
      reconnectInterval = 1000, generationId = None, pingInterval = None\<rparr>"

text \<open>The service and the store it writes to.\<close>

type_synonym client = "WebSocketNativeService \<times> GenerationSlice"

definition connection_lost :: GenerationError where
  "connection_lost =
     \<lparr>err_message = JStr ''Connection to the server lost'',
      err_code = JStr ''CONNECTION_LOST'',
      err_details =
        Some (JStr ''Unable to reconnect to the server after multiple attempts'')\<rparr>"

text \<open>
  \<^verbatim>\<open>handleReconnect\<close>: the second component is the delay of the timeout it registers,
  \<open>None\<close> when it registers none.
\<close>

definition handleReconnect :: "nat \<Rightarrow> client \<Rightarrow> client \<times> nat option" where
  "handleReconnect now st =
     (case st of (ws, s) \<Rightarrow>
        (let ws1 = ws\<lparr>pingInterval := None\<rparr> in
         if reconnectAttempts ws1 < maxReconnectAttempts ws1 then
           (let ws2 = ws1\<lparr>reconnectAttempts := reconnectAttempts ws1 + 1\<rparr>;
                delay = reconnectInterval ws2 * 2 ^ (reconnectAttempts ws2 - 1)
            in ((ws2, s), Some delay))
         else ((ws1, failGeneration now connection_lost s), None)))"

text \<open>
  \<^verbatim>\<open>disconnect\<close>: the service drops its socket, closing it first when it is open or
  connecting; the dropped socket is not followed any further.
\<close>

definition disconnect :: "client \<Rightarrow> client" where
  "disconnect st =
     (case st of (ws, s) \<Rightarrow>
        (let ws1 = ws\<lparr>pingInterval := None\<rparr> in
         case socket ws1 of
           None \<Rightarrow> (ws1, s)
         | Some rs \<Rightarrow> (ws1\<lparr>socket := None\<rparr>, setWsConnected False s)))"

text \<open>
  \<^verbatim>\<open>connect\<close>: \<open>constructed\<close> says whether \<^verbatim>\<open>new WebSocket(wsUrl)\<close> returns (it throws
  on a malformed address), \<open>tid\<close> is the identifier \<^verbatim>\<open>setInterval\<close> gives the ping
  timer. The address is a string built from the configuration and is not part of the
  state.
\<close>

definition connect :: "bool \<Rightarrow> nat \<Rightarrow> nat \<Rightarrow> string \<Rightarrow> client \<Rightarrow> client \<times> nat option" where
  "connect constructed tid now g st =
     (case st of (ws, s) \<Rightarrow>
        (case disconnect (ws\<lparr>generationId := Some g\<rparr>, s) of (ws1, s1) \<Rightarrow>
           if constructed
           then ((ws1\<lparr>socket := Some CONNECTING, pingInterval := Some tid\<rparr>, s1), None)
           else handleReconnect now (ws1, s1)))"

definition onopen :: "client \<Rightarrow> client" where
  "onopen st =
     (case st of (ws, s) \<Rightarrow> (ws\<lparr>reconnectAttempts := 0\<rparr>, setWsConnected True s))"

definition onclose :: "nat \<Rightarrow> client \<Rightarrow> client \<times> nat option" where
  "onclose now st = (case st of (ws, s) \<Rightarrow> handleReconnect now (ws, setWsConnected False s))"

text \<open>The callback of the timeout registered by \<^verbatim>\<open>handleReconnect\<close>: it reconnects when
  the stored session id is truthy, that is neither \<^verbatim>\<open>null\<close> nor the empty string.\<close>

definition reconnect :: "bool \<Rightarrow> nat \<Rightarrow> nat \<Rightarrow> client \<Rightarrow> client \<times> nat option" where
  "reconnect constructed tid now st =
     (case generationId (fst st) of
        None \<Rightarrow> (st, None)
      | Some g \<Rightarrow> (if g = [] then (st, None) else connect constructed tid now g st))"

text \<open>The browser closes the socket: its \<^verbatim>\<open>readyState\<close> is \<^verbatim>\<open>CLOSED\<close> when the close
  event is delivered.\<close>

definition socket_closed :: "client \<Rightarrow> client" where
  "socket_closed st =
     (case st of (ws, s) \<Rightarrow> (ws\<lparr>socket := map_option (\<lambda>rs. CLOSED) (socket ws)\<rparr>, s))"

text \<open>
  One failed attempt: the socket closes unexpectedly and, when a retry was scheduled,
  its timeout fires and \<^verbatim>\<open>connect\<close> opens the next socket. No \<^verbatim>\<open>onopen\<close> comes in
  between, so the closures are consecutive. The result carries the delay scheduled by
  the closure.
\<close>

definition failed_attempt :: "nat \<Rightarrow> nat \<Rightarrow> client \<Rightarrow> client \<times> nat option" where
  "failed_attempt tid now st =
     (case onclose now (socket_closed st) of
        (st1, None) \<Rightarrow> (st1, None)
      | (st1, Some delay) \<Rightarrow> (fst (reconnect True tid now st1), Some delay))"

fun failed_attempts :: "nat \<Rightarrow> nat \<Rightarrow> nat \<Rightarrow> client \<Rightarrow> client \<times> nat option list" where
  "failed_attempts 0 tid now st = (st, [])"
| "failed_attempts (Suc n) tid now st =
     (case failed_attempt tid now st of (st1, d) \<Rightarrow>
        (case failed_attempts n tid now st1 of (st2, ds) \<Rightarrow> (st2, d # ds)))"

subsection \<open>Decoding inbound frames\<close>

text \<open>\<^verbatim>\<open>this.generationId\<close> as a value.\<close>

definition service_id :: "WebSocketNativeService \<Rightarrow> json" where
  "service_id ws = (case generationId ws of None \<Rightarrow> JNull | Some g \<Rightarrow> JStr g)"

definition decode_progress :: "WebSocketNativeService \<Rightarrow> nat \<Rightarrow> json \<Rightarrow> GenerationProgress" where
  "decode_progress ws now data =
     \<lparr>p_generationId =
        or_else (or_js (field data ''generation_id'') (Some (service_id ws))) (JStr ''''),
      p_progress = or_else (field data ''progress'') (JNum 0),
      p_step = or_else (field data ''step'') (JStr ''Unknown''),
      p_stepProgress =
        or_else (or_js (field data ''step_progress'') (field data ''progress'')) (JNum 0),
      p_message = Some (or_else (field data ''message'') (JStr '''')),
      p_timestamp =
        (case field data ''timestamp'' of
           None \<Rightarrow> DateAt now
         | Some v \<Rightarrow> (if truthy v then DateFrom v else DateAt now))\<rparr>"

definition decode_result :: "WebSocketNativeService \<Rightarrow> json \<Rightarrow> json" where
  "decode_result ws data =
     JObj [(''generationId'',
              or_else (or_js (field data ''generation_id'') (Some (service_id ws))) (JStr '''')),
           (''websiteData'', or_else (field data ''final_website'') (JObj [])),
           (''qualityScore'', or_else (field data ''quality_score'') (JNum 0))]"

definition decode_error :: "json \<Rightarrow> GenerationError" where
  "decode_error data =
     \<lparr>err_message = or_else (field data ''message'') (JStr ''Unknown error''),
      err_code = or_else (field data ''code'') (JStr ''ERROR''),
      err_details = Some (or_else (field data ''details'') (JStr ''''))\<rparr>"

text \<open>
  The body of the \<^verbatim>\<open>try\<close> of \<^verbatim>\<open>onmessage\<close>. \<open>parsed\<close> is what
  \<^verbatim>\<open>JSON.parse(event.data)\<close> gives: the value, or \<open>Inl SyntaxError\<close>.
\<close>

definition onmessage_try ::
  "WebSocketNativeService \<Rightarrow> nat \<Rightarrow> thrown + json \<Rightarrow> GenerationSlice
     \<Rightarrow> thrown + GenerationSlice" where
  "onmessage_try ws now parsed s =
     (case parsed of
        Inl e \<Rightarrow> Inl e
      | Inr data \<Rightarrow>
          (case get_prop data ''type'' of
             Inl e \<Rightarrow> Inl e
           | Inr t \<Rightarrow>
               if t = Some (JStr ''connection'') then Inr s
               else if t = Some (JStr ''progress_update'')
                 then Inr (updateProgress (decode_progress ws now data) s)
               else if t = Some (JStr ''generation_complete'')
                 then Inr (completeGeneration now (decode_result ws data) s)
               else if t = Some (JStr ''error'')
                 then Inr (failGeneration now (decode_error data) s)
               else if t = Some (JStr ''pong'') then Inr s
               else Inr s))"

text \<open>\<^verbatim>\<open>onmessage\<close>: whatever the body throws is caught and logged.\<close>

definition onmessage ::
  "WebSocketNativeService \<Rightarrow> nat \<Rightarrow> thrown + json \<Rightarrow> GenerationSlice \<Rightarrow> GenerationSlice" where
  "onmessage ws now parsed s =
     (case onmessage_try ws now parsed s of Inl e \<Rightarrow> s | Inr s' \<Rightarrow> s')"

section \<open>Example states\<close>

definition example_business :: BusinessData where
  "example_business =
     \<lparr>businessName = ''Bakery'', businessDescription = ''Bread and cakes'',
      businessCategory = ''food'', targetAudience = ''locals'',
      websitePurpose = ''orders'', contactInfo = None, additionalInfo = None\<rparr>"

text \<open>A store with the session \<^verbatim>\<open>g1\<close> running and an empty history.\<close>

definition example_running :: GenerationSlice where
  "example_running =
     snd (startGeneration (Inr (JObj [(''generation_id'', JStr ''g1'')])) ''uuid-1'' 1000
            example_business initial_slice)"

text \<open>A store with \<^verbatim>\<open>g1\<close> completed in the history and the session \<^verbatim>\<open>g2\<close> running.\<close>

definition example_second :: GenerationSlice where
  "example_second =
     run [CompleteGeneration 2000 (JObj []),
          StartGeneration (Inr (JObj [(''generation_id'', JStr ''g2'')])) ''uuid-2'' 3000
            example_business]
       example_running"

definition example_progress :: GenerationProgress where
  "example_progress =
     \<lparr>p_generationId = JStr ''g1'', p_progress = JNum 40, p_step = JStr ''content'',
      p_stepProgress = JNum 80, p_message = None, p_timestamp = DateAt 1500\<rparr>"

definition example_error :: GenerationError where
  "example_error =
     \<lparr>err_message = JStr ''boom'', err_code = JStr ''ERROR'', err_details = None\<rparr>"

text \<open>The rejection of a request by axios, with the detail \<open>d\<close> in the response body.\<close>

definition example_rejection :: "string \<Rightarrow> thrown" where
  "example_rejection d =
     Rejection (JObj [(''message'', JStr ''Request failed with status code 400''),
                      (''response'', JObj [(''status'', JNum 400),
                                           (''data'', JObj [(''detail'', JStr d)])])])"

text \<open>A fresh service connected for the running session \<^verbatim>\<open>g1\<close>.\<close>

definition example_connected :: client where
  "example_connected = fst (connect True 1 1000 ''g1'' (new_service, example_running))"

lemmas js_defs = or_js_def or_else_def field_def service_id_def

section \<open>Facts about single operations\<close>

text \<open>
  \<^verbatim>\<open>startGeneration\<close> ends in one of two ways: rejected with only the flag reset, or
  resolved with a fresh session installed.
\<close>

lemma startGeneration_cases:
  "(\<exists>e. startGeneration api uuid now bd s = (Inl e, s\<lparr>isGenerating := False\<rparr>)) \<or>
   (\<exists>g. startGeneration api uuid now bd s =
      (Inr (), s\<lparr>isGenerating := True, currentGeneration := Some (newGeneration g now bd)\<rparr>))"
  by (auto simp: startGeneration_def startGeneration_request_def Let_def split: sum.splits)

lemma get_prop_field: "v \<noteq> JNull \<Longrightarrow> get_prop v k = Inr (field v k)"
  by (cases v) (simp_all add: field_def)

lemma updateProgress_status:
  "map_option gen_status (currentGeneration (updateProgress p s)) =
   map_option gen_status (currentGeneration s)"
  by (simp add: updateProgress_def split: option.splits)

text \<open>The two outcomes of \<^verbatim>\<open>startGeneration\<close>, decided by the request alone.\<close>

lemma start_fails:
  "\<not> start_succeeds api \<Longrightarrow>
     snd (startGeneration api uuid now bd s) = s\<lparr>isGenerating := False\<rparr>"
proof (cases api)
  case (Inl e)
  then show ?thesis
    by (simp add: startGeneration_def startGeneration_request_def)
next
  case (Inr response)
  assume "\<not> start_succeeds api"
  with Inr have "response = JNull" by simp
  with Inr show ?thesis
    by (simp add: startGeneration_def startGeneration_request_def)
qed

lemma start_ok:
  "start_succeeds api \<Longrightarrow>
     \<exists>g. snd (startGeneration api uuid now bd s) =
            s\<lparr>isGenerating := True, currentGeneration := Some (newGeneration g now bd)\<rparr>"
proof (cases api)
  case (Inl e)
  assume "start_succeeds api"
  with Inl show ?thesis by simp
next
  case (Inr response)
  assume "start_succeeds api"
  with Inr have "response \<noteq> JNull" by simp
  then have "snd (startGeneration (Inr response) uuid now bd s) =
      s\<lparr>isGenerating := True,
        currentGeneration :=
          Some (newGeneration (or_else (field response ''generation_id'') (JStr uuid))
                  now bd)\<rparr>"
    by (simp add: startGeneration_def startGeneration_request_def get_prop_field)
  with Inr show ?thesis by blast
qed

text \<open>Each operation moves the two fields of the current session as the tracking says.\<close>

lemma carries_result_step:
  assumes "carries_result s r"
  shows "carries_result (apply_op op s) (result_step op r)"
proof (cases op)
  case (StartGeneration api uuid now bd)
  show ?thesis
  proof (cases "start_succeeds api")
    case True
    from start_ok [OF True, of uuid now bd s] StartGeneration True show ?thesis
      by (auto simp: carries_result_def newGeneration_def)
  next
    case False
    from start_fails [OF False, of uuid now bd s] StartGeneration False assms show ?thesis
      by (simp add: carries_result_def)
  qed
qed (use assms in \<open>auto simp: carries_result_def updateProgress_def completeGeneration_def
      completedGeneration_def failGeneration_def cancelGeneration_def
      clearCurrentGeneration_def split: option.splits\<close>)

lemma carries_error_step:
  assumes "carries_error s e"
  shows "carries_error (apply_op op s) (error_step op e)"
proof (cases op)
  case (StartGeneration api uuid now bd)
  show ?thesis
  proof (cases "start_succeeds api")
    case True
    from start_ok [OF True, of uuid now bd s] StartGeneration True show ?thesis
      by (auto simp: carries_error_def newGeneration_def)
  next
    case False
    from start_fails [OF False, of uuid now bd s] StartGeneration False assms show ?thesis
      by (simp add: carries_error_def)
  qed
qed (use assms in \<open>auto simp: carries_error_def updateProgress_def completeGeneration_def
      completedGeneration_def failGeneration_def cancelGeneration_def
      clearCurrentGeneration_def split: option.splits\<close>)

lemma carries_run:
  "carries_result s r \<Longrightarrow> carries_result (run ops s) (tracked_result ops r)"
  "carries_error s e \<Longrightarrow> carries_error (run ops s) (tracked_error ops e)"
proof -
  show "carries_result s r \<Longrightarrow> carries_result (run ops s) (tracked_result ops r)"
  proof (induction ops arbitrary: s r)
    case Nil
    then show ?case by simp
  next
    case (Cons op ops)
    from Cons.prems have "carries_result (apply_op op s) (result_step op r)"
      by (rule carries_result_step)
    then have "carries_result (run ops (apply_op op s)) (tracked_result ops (result_step op r))"
      by (rule Cons.IH)
    then show ?case by simp
  qed
  show "carries_error s e \<Longrightarrow> carries_error (run ops s) (tracked_error ops e)"
  proof (induction ops arbitrary: s e)
    case Nil
    then show ?case by simp
  next
    case (Cons op ops)
    from Cons.prems have "carries_error (apply_op op s) (error_step op e)"
      by (rule carries_error_step)
    then have "carries_error (run ops (apply_op op s)) (tracked_error ops (error_step op e))"
      by (rule Cons.IH)
    then show ?case by simp
  qed
qed

lemma tracked_result_no_complete:
  "\<forall>op \<in> set ops. \<not> is_complete op \<Longrightarrow> tracked_result ops None = None"
proof (induction ops)
  case Nil
  show ?case by simp
next
  case (Cons op ops)
  then have "\<not> is_complete op" by simp
  then have "result_step op None = None" by (cases op) simp_all
  with Cons show ?case by simp
qed

lemma tracked_error_no_fail:
  "\<forall>op \<in> set ops. \<not> is_fail op \<Longrightarrow> tracked_error ops None = None"
proof (induction ops)
  case Nil
  show ?case by simp
next
  case (Cons op ops)
  then have "\<not> is_fail op" by simp
  then have "error_step op None = None" by (cases op) simp_all
  with Cons show ?case by simp
qed

text \<open>Among the inbound events only \<^verbatim>\<open>completeGeneration\<close> writes the result and only
  \<^verbatim>\<open>failGeneration\<close> the error.\<close>

lemma result_kept_step:
  "inbound op \<and> \<not> is_complete op \<Longrightarrow>
     map_option gen_result (currentGeneration (apply_op op s)) =
     map_option gen_result (currentGeneration s)"
  by (cases op) (simp_all add: updateProgress_def failGeneration_def split: option.splits)

lemma error_kept_step:
  "inbound op \<and> \<not> is_fail op \<Longrightarrow>
     map_option gen_error (currentGeneration (apply_op op s)) =
     map_option gen_error (currentGeneration s)"
  by (cases op)
     (simp_all add: updateProgress_def completeGeneration_def completedGeneration_def
        split: option.splits)

lemma result_kept_run:
  "\<forall>op \<in> set ops. inbound op \<and> \<not> is_complete op \<Longrightarrow>
     map_option gen_result (currentGeneration (run ops s)) =
     map_option gen_result (currentGeneration s)"
proof (induction ops arbitrary: s)
  case Nil
  show ?case by simp
next
  case (Cons op ops)
  then have "map_option gen_result (currentGeneration (run ops (apply_op op s))) =
     map_option gen_result (currentGeneration (apply_op op s))"
    by simp
  also from Cons.prems have "\<dots> = map_option gen_result (currentGeneration s)"
    by (simp add: result_kept_step)
  finally show ?case by simp
qed

lemma error_kept_run:
  "\<forall>op \<in> set ops. inbound op \<and> \<not> is_fail op \<Longrightarrow>
     map_option gen_error (currentGeneration (run ops s)) =
     map_option gen_error (currentGeneration s)"
proof (induction ops arbitrary: s)
  case Nil
  show ?case by simp
next
  case (Cons op ops)
  then have "map_option gen_error (currentGeneration (run ops (apply_op op s))) =
     map_option gen_error (currentGeneration (apply_op op s))"
    by simp
  also from Cons.prems have "\<dots> = map_option gen_error (currentGeneration s)"
    by (simp add: error_kept_step)
  finally show ?case by simp
qed

text \<open>An inbound event keeps the session, its phase identifiers and the terminality of
  its status; only a failure can move it away from \<^verbatim>\<open>completed\<close>, only a completion
  away from \<^verbatim>\<open>failed\<close>.\<close>

lemma inbound_step:
  assumes "currentGeneration s = Some c" and "inbound op"
  shows "\<exists>c'. currentGeneration (apply_op op s) = Some c' \<and>
              map step_id (gen_steps c') = map step_id (gen_steps c) \<and>
              (terminal (gen_status c) \<longrightarrow> terminal (gen_status c')) \<and>
              (\<not> is_fail op \<and> gen_status c = Completed \<longrightarrow> gen_status c' = Completed) \<and>
              (\<not> is_complete op \<and> gen_status c = Failed \<longrightarrow> gen_status c' = Failed)"
  using assms
  by (cases op)
     (simp_all add: updateProgress_def completeGeneration_def completedGeneration_def
        failGeneration_def terminal_def)

lemma inbound_run:
  assumes "currentGeneration s = Some c" and "\<forall>op \<in> set ops. inbound op"
  shows "\<exists>c'. currentGeneration (run ops s) = Some c' \<and>
              map step_id (gen_steps c') = map step_id (gen_steps c) \<and>
              (terminal (gen_status c) \<longrightarrow> terminal (gen_status c')) \<and>
              ((\<forall>op \<in> set ops. \<not> is_fail op) \<and> gen_status c = Completed \<longrightarrow>
                 gen_status c' = Completed) \<and>
              ((\<forall>op \<in> set ops. \<not> is_complete op) \<and> gen_status c = Failed \<longrightarrow>
                 gen_status c' = Failed)"
  using assms
proof (induction ops arbitrary: s c)
  case Nil
  then show ?case by simp
next
  case (Cons op ops)
  from Cons.prems have "inbound op" by simp
  from inbound_step [OF Cons.prems(1) this]
  obtain c1 where c1: "currentGeneration (apply_op op s) = Some c1"
      "map step_id (gen_steps c1) = map step_id (gen_steps c)"
      "terminal (gen_status c) \<longrightarrow> terminal (gen_status c1)"
      "\<not> is_fail op \<and> gen_status c = Completed \<longrightarrow> gen_status c1 = Completed"
      "\<not> is_complete op \<and> gen_status c = Failed \<longrightarrow> gen_status c1 = Failed"
    by blast
  from Cons.prems have "\<forall>op \<in> set ops. inbound op" by simp
  from Cons.IH [OF c1(1) this]
  obtain c' where c': "currentGeneration (run ops (apply_op op s)) = Some c'"
      "map step_id (gen_steps c') = map step_id (gen_steps c1)"
      "terminal (gen_status c1) \<longrightarrow> terminal (gen_status c')"
      "(\<forall>op \<in> set ops. \<not> is_fail op) \<and> gen_status c1 = Completed \<longrightarrow>
         gen_status c' = Completed"
      "(\<forall>op \<in> set ops. \<not> is_complete op) \<and> gen_status c1 = Failed \<longrightarrow>
         gen_status c' = Failed"
    by blast
  from c1 c' show ?case by simp
qed

text \<open>An inbound event that does not name a phase does not set it to \<^verbatim>\<open>in_progress\<close>.\<close>

lemma phase_step:
  assumes "currentGeneration s = Some c" and "inbound op" and "\<not> names_phase pid op"
    and "i < length (gen_steps c)" and "step_id (gen_steps c ! i) = pid"
  shows "\<exists>c'. currentGeneration (apply_op op s) = Some c' \<and>
              length (gen_steps c') = length (gen_steps c) \<and>
              step_id (gen_steps c' ! i) = pid \<and>
              (step_status (gen_steps c' ! i) = InProgress \<longrightarrow>
                 step_status (gen_steps c ! i) = InProgress)"
  using assms
  by (cases op)
     (auto simp: updateProgress_def completeGeneration_def completedGeneration_def
        failGeneration_def)

lemma phase_run:
  assumes "currentGeneration s = Some c"
    and "\<forall>op \<in> set ops. inbound op \<and> \<not> names_phase pid op"
    and "i < length (gen_steps c)" and "step_id (gen_steps c ! i) = pid"
  shows "\<exists>c'. currentGeneration (run ops s) = Some c' \<and>
              length (gen_steps c') = length (gen_steps c) \<and>
              step_id (gen_steps c' ! i) = pid \<and>
              (step_status (gen_steps c' ! i) = InProgress \<longrightarrow>
                 step_status (gen_steps c ! i) = InProgress)"
  using assms
proof (induction ops arbitrary: s c)
  case Nil
  then show ?case by simp
next
  case (Cons op ops)
  from Cons.prems have op: "inbound op" "\<not> names_phase pid op" by simp_all
  from phase_step [OF Cons.prems(1) op Cons.prems(3) Cons.prems(4)]
  obtain c1 where c1: "currentGeneration (apply_op op s) = Some c1"
      "length (gen_steps c1) = length (gen_steps c)"
      "step_id (gen_steps c1 ! i) = pid"
      "step_status (gen_steps c1 ! i) = InProgress \<longrightarrow>
         step_status (gen_steps c ! i) = InProgress"
    by blast
  from Cons.prems have rest: "\<forall>op \<in> set ops. inbound op \<and> \<not> names_phase pid op"
    by simp
  from c1(2) Cons.prems(3) have i1: "i < length (gen_steps c1)" by simp
  from Cons.IH [OF c1(1) rest i1 c1(3)]
  obtain c' where c': "currentGeneration (run ops (apply_op op s)) = Some c'"
      "length (gen_steps c') = length (gen_steps c1)"
      "step_id (gen_steps c' ! i) = pid"
      "step_status (gen_steps c' ! i) = InProgress \<longrightarrow>
         step_status (gen_steps c1 ! i) = InProgress"
    by blast
  from c1 c' show ?case by simp
qed

lemma history_unchanged:
  "\<not> is_complete op \<Longrightarrow> generationHistory (apply_op op s) = generationHistory s"
proof (cases op)
  case (StartGeneration api uuid now bd)
  with startGeneration_cases [of api uuid now bd s] show ?thesis
    by auto
qed (auto simp: updateProgress_def failGeneration_def
      cancelGeneration_def clearCurrentGeneration_def split: option.splits)

lemma history_completed_step:
  assumes "\<forall>g \<in> set (generationHistory s). gen_status g = Completed"
  shows "\<forall>g \<in> set (generationHistory (apply_op op s)). gen_status g = Completed"
proof (cases "is_complete op")
  case False
  with assms show ?thesis by (simp add: history_unchanged)
next
  case True
  then obtain now res where "op = CompleteGeneration now res" by (cases op) auto
  with assms show ?thesis
    by (auto simp: completeGeneration_def completedGeneration_def split: option.splits)
qed

text \<open>The example states, evaluated once.\<close>

lemma example_running_eq:
  "example_running =
     \<lparr>currentGeneration = Some (newGeneration (JStr ''g1'') 1000 example_business),
      generationHistory = [], isGenerating = True, wsConnected = False\<rparr>"
  by (simp add: example_running_def startGeneration_def startGeneration_request_def
        or_else_def initial_slice_def)

lemma example_second_eq:
  "example_second =
     \<lparr>currentGeneration = Some (newGeneration (JStr ''g2'') 3000 example_business),
      generationHistory =
        [completedGeneration 2000 (JObj [])
           (newGeneration (JStr ''g1'') 1000 example_business)],
      isGenerating = True, wsConnected = False\<rparr>"
  by (simp add: example_second_def example_running_eq completeGeneration_def
        startGeneration_def startGeneration_request_def or_else_def)

section \<open>The claims\<close>

text \<open>
  C1 (monotonic terminality), as amended. The store has no guard on terminal sessions,
  so the claim as written fails (see the counterexample below). What holds, once the
  current session's status is \<^verbatim>\<open>completed\<close> or \<^verbatim>\<open>failed\<close>, for every sequence of
  inbound events (\<^verbatim>\<open>updateProgress\<close>, \<^verbatim>\<open>completeGeneration\<close>, \<^verbatim>\<open>failGeneration\<close>):
  the session stays and its status is again \<^verbatim>\<open>completed\<close> or \<^verbatim>\<open>failed\<close>; the status
  changes only when \<^verbatim>\<open>failGeneration\<close> is applied to a completed session or
  \<^verbatim>\<open>completeGeneration\<close> to a failed one (a completed session stays completed along
  a sequence without \<^verbatim>\<open>failGeneration\<close>, a failed one stays failed along a sequence
  without \<^verbatim>\<open>completeGeneration\<close>, and \<^verbatim>\<open>updateProgress\<close> never changes the status);
  the phase identifiers are kept; and a phase is set back to \<^verbatim>\<open>in_progress\<close> only by
  an \<^verbatim>\<open>updateProgress\<close> whose step names that phase: a phase that no event of the
  sequence names is \<^verbatim>\<open>in_progress\<close> afterwards only if it was before.
\<close>

theorem terminal_stays_terminal:
  "(currentGeneration s = Some c \<and> terminal (gen_status c) \<and> (\<forall>op \<in> set ops. inbound op) \<longrightarrow>
      (\<exists>c'. currentGeneration (run ops s) = Some c' \<and> terminal (gen_status c') \<and>
           ((\<forall>op \<in> set ops. \<not> is_fail op) \<and> gen_status c = Completed \<longrightarrow>
              gen_status c' = Completed) \<and>
           ((\<forall>op \<in> set ops. \<not> is_complete op) \<and> gen_status c = Failed \<longrightarrow>
              gen_status c' = Failed) \<and>
           map step_id (gen_steps c') = map step_id (gen_steps c) \<and>
           (\<forall>i < length (gen_steps c).
              (\<forall>op \<in> set ops. \<not> names_phase (step_id (gen_steps c ! i)) op) \<and>
              step_status (gen_steps c' ! i) = InProgress \<longrightarrow>
              step_status (gen_steps c ! i) = InProgress))) \<and>
   map_option gen_status (currentGeneration (updateProgress p s)) =
     map_option gen_status (currentGeneration s)"
proof
  show "currentGeneration s = Some c \<and> terminal (gen_status c) \<and> (\<forall>op \<in> set ops. inbound op) \<longrightarrow>
      (\<exists>c'. currentGeneration (run ops s) = Some c' \<and> terminal (gen_status c') \<and>
           ((\<forall>op \<in> set ops. \<not> is_fail op) \<and> gen_status c = Completed \<longrightarrow>
              gen_status c' = Completed) \<and>
           ((\<forall>op \<in> set ops. \<not> is_complete op) \<and> gen_status c = Failed \<longrightarrow>
              gen_status c' = Failed) \<and>
           map step_id (gen_steps c') = map step_id (gen_steps c) \<and>
           (\<forall>i < length (gen_steps c).
              (\<forall>op \<in> set ops. \<not> names_phase (step_id (gen_steps c ! i)) op) \<and>
              step_status (gen_steps c' ! i) = InProgress \<longrightarrow>
              step_status (gen_steps c ! i) = InProgress))"
  proof
    assume h: "currentGeneration s = Some c \<and> terminal (gen_status c) \<and>
               (\<forall>op \<in> set ops. inbound op)"
    then have cur: "currentGeneration s = Some c" and tm: "terminal (gen_status c)"
      and inb: "\<forall>op \<in> set ops. inbound op"
      by simp_all
    from inbound_run [OF cur inb] tm
    obtain c' where c': "currentGeneration (run ops s) = Some c'"
        "map step_id (gen_steps c') = map step_id (gen_steps c)"
        "terminal (gen_status c')"
        "(\<forall>op \<in> set ops. \<not> is_fail op) \<and> gen_status c = Completed \<longrightarrow>
           gen_status c' = Completed"
        "(\<forall>op \<in> set ops. \<not> is_complete op) \<and> gen_status c = Failed \<longrightarrow>
           gen_status c' = Failed"
      by blast
    have phases: "\<forall>i < length (gen_steps c).
              (\<forall>op \<in> set ops. \<not> names_phase (step_id (gen_steps c ! i)) op) \<and>
              step_status (gen_steps c' ! i) = InProgress \<longrightarrow>
              step_status (gen_steps c ! i) = InProgress"
    proof (intro allI impI)
      fix i
      assume i: "i < length (gen_steps c)"
      assume a: "(\<forall>op \<in> set ops. \<not> names_phase (step_id (gen_steps c ! i)) op) \<and>
              step_status (gen_steps c' ! i) = InProgress"
      with inb have "\<forall>op \<in> set ops. inbound op \<and> \<not> names_phase (step_id (gen_steps c ! i)) op"
        by simp
      from phase_run [OF cur this i refl] c'(1) a
      show "step_status (gen_steps c ! i) = InProgress"
        by auto
    qed
    from c' phases
    show "\<exists>c'. currentGeneration (run ops s) = Some c' \<and> terminal (gen_status c') \<and>
           ((\<forall>op \<in> set ops. \<not> is_fail op) \<and> gen_status c = Completed \<longrightarrow>
              gen_status c' = Completed) \<and>
           ((\<forall>op \<in> set ops. \<not> is_complete op) \<and> gen_status c = Failed \<longrightarrow>
              gen_status c' = Failed) \<and>
           map step_id (gen_steps c') = map step_id (gen_steps c) \<and>
           (\<forall>i < length (gen_steps c).
              (\<forall>op \<in> set ops. \<not> names_phase (step_id (gen_steps c ! i)) op) \<and>
              step_status (gen_steps c' ! i) = InProgress \<longrightarrow>
              step_status (gen_steps c ! i) = InProgress)"
      by blast
  qed
next
  show "map_option gen_status (currentGeneration (updateProgress p s)) =
     map_option gen_status (currentGeneration s)"
    by (rule updateProgress_status)
qed

text \<open>
  Witness for C1: the completed session \<^verbatim>\<open>g1\<close> receives a progress event for the
  phase \<^verbatim>\<open>content\<close>: it stays completed, and its phase \<^verbatim>\<open>design\<close>, which the
  event does not name, is not set to \<^verbatim>\<open>in_progress\<close>. The failed session \<^verbatim>\<open>g1\<close>
  receives the progress event and a second failure: it stays failed.
\<close>

theorem terminal_stays_terminal_witness:
  "currentGeneration (completeGeneration 2000 (JObj []) example_running) =
     Some (completedGeneration 2000 (JObj [])
             (newGeneration (JStr ''g1'') 1000 example_business)) \<and>
   terminal (gen_status (completedGeneration 2000 (JObj [])
             (newGeneration (JStr ''g1'') 1000 example_business))) \<and>
   inbound (UpdateProgress example_progress) \<and>
   \<not> is_fail (UpdateProgress example_progress) \<and>
   step_id (gen_steps (completedGeneration 2000 (JObj [])
             (newGeneration (JStr ''g1'') 1000 example_business)) ! 1) = ''design'' \<and>
   \<not> names_phase ''design'' (UpdateProgress example_progress) \<and>
   (\<exists>c'. currentGeneration
           (run [UpdateProgress example_progress]
              (completeGeneration 2000 (JObj []) example_running)) = Some c' \<and>
         gen_status c' = Completed \<and>
         step_status (gen_steps c' ! 1) \<noteq> InProgress) \<and>
   currentGeneration (failGeneration 2000 example_error example_running) =
     Some ((newGeneration (JStr ''g1'') 1000 example_business)
             \<lparr>gen_status := Failed, gen_error := Some example_error,
               gen_completedAt := Some (DateAt 2000)\<rparr>) \<and>
   inbound (FailGeneration 2500 example_error) \<and>
   \<not> is_complete (UpdateProgress example_progress) \<and>
   \<not> is_complete (FailGeneration 2500 example_error) \<and>
   (\<exists>c'. currentGeneration
           (run [UpdateProgress example_progress, FailGeneration 2500 example_error]
              (failGeneration 2000 example_error example_running)) = Some c' \<and>
         gen_status c' = Failed)"
proof -
  let ?done = "completedGeneration 2000 (JObj [])
                 (newGeneration (JStr ''g1'') 1000 example_business)"
  let ?failed = "(newGeneration (JStr ''g1'') 1000 example_business)
             \<lparr>gen_status := Failed, gen_error := Some example_error,
               gen_completedAt := Some (DateAt 2000)\<rparr>"
  let ?ops1 = "[UpdateProgress example_progress]"
  let ?ops2 = "[UpdateProgress example_progress, FailGeneration 2500 example_error]"
  have a: "currentGeneration (completeGeneration 2000 (JObj []) example_running) = Some ?done"
    by (simp add: example_running_eq completeGeneration_def)
  have b: "terminal (gen_status ?done)" and b': "gen_status ?done = Completed"
    by (simp_all add: completedGeneration_def terminal_def)
  have c: "\<forall>op \<in> set ?ops1. inbound op" and d: "\<forall>op \<in> set ?ops1. \<not> is_fail op"
    by simp_all
  have e: "\<forall>op \<in> set ?ops1. \<not> names_phase (step_id (gen_steps ?done ! 1)) op"
    and e': "step_id (gen_steps ?done ! 1) = ''design''"
    and f: "1 < length (gen_steps ?done)"
    and g: "step_status (gen_steps ?done ! 1) \<noteq> InProgress"
    by (simp_all add: completedGeneration_def newGeneration_def initial_steps_def
          example_progress_def)
  from a b c terminal_stays_terminal
    [of "completeGeneration 2000 (JObj []) example_running" ?done ?ops1 example_progress]
  obtain c1 where c1: "currentGeneration (run ?ops1
        (completeGeneration 2000 (JObj []) example_running)) = Some c1"
      "(\<forall>op \<in> set ?ops1. \<not> is_fail op) \<and> gen_status ?done = Completed \<longrightarrow>
         gen_status c1 = Completed"
      "\<forall>i < length (gen_steps ?done).
         (\<forall>op \<in> set ?ops1. \<not> names_phase (step_id (gen_steps ?done ! i)) op) \<and>
         step_status (gen_steps c1 ! i) = InProgress \<longrightarrow>
         step_status (gen_steps ?done ! i) = InProgress"
    by blast
  from c1(2) d b' have h: "gen_status c1 = Completed" by blast
  from c1(3) e f g have i: "step_status (gen_steps c1 ! 1) \<noteq> InProgress" by blast
  have j: "currentGeneration (failGeneration 2000 example_error example_running) = Some ?failed"
    by (simp add: example_running_eq failGeneration_def)
  have k: "terminal (gen_status ?failed)" and k': "gen_status ?failed = Failed"
    by (simp_all add: terminal_def)
  have l: "\<forall>op \<in> set ?ops2. inbound op" and m: "\<forall>op \<in> set ?ops2. \<not> is_complete op"
    by simp_all
  from j k l terminal_stays_terminal
    [of "failGeneration 2000 example_error example_running" ?failed ?ops2 example_progress]
  obtain c2 where c2: "currentGeneration (run ?ops2
        (failGeneration 2000 example_error example_running)) = Some c2"
      "(\<forall>op \<in> set ?ops2. \<not> is_complete op) \<and> gen_status ?failed = Failed \<longrightarrow>
         gen_status c2 = Failed"
    by blast
  from c2(2) m k' have n: "gen_status c2 = Failed" by blast
  have o: "\<not> names_phase ''design'' (UpdateProgress example_progress)"
    by (simp add: example_progress_def)
  from a b e' j c1(1) h i c2(1) n o show ?thesis by simp
qed

text \<open>
  Counterexample to C1 as written: the session \<^verbatim>\<open>g1\<close> is completed; a later
  \<^verbatim>\<open>failGeneration\<close> changes its status to \<^verbatim>\<open>failed\<close>, and a later
  \<^verbatim>\<open>updateProgress\<close> for the phase \<^verbatim>\<open>content\<close> sets that phase back to
  \<^verbatim>\<open>in_progress\<close>.
\<close>

theorem terminality_counterexample:
  "map_option gen_status
     (currentGeneration (run [CompleteGeneration 2000 (JObj [])] example_running)) =
     Some Completed \<and>
   map_option gen_status
     (currentGeneration
        (run [CompleteGeneration 2000 (JObj []), FailGeneration 2500 example_error]
           example_running)) = Some Failed \<and>
   map_option (\<lambda>c. map step_status (gen_steps c))
     (currentGeneration
        (run [CompleteGeneration 2000 (JObj []), UpdateProgress example_progress]
           example_running)) = Some [InProgress, Completed, Completed, Completed]"
  by (simp add: example_running_eq completeGeneration_def completedGeneration_def
        failGeneration_def updateProgress_def newGeneration_def initial_steps_def
        example_progress_def)

text \<open>
  C3 (completion postcondition), as amended. With no current session
  \<^verbatim>\<open>completeGeneration\<close> changes nothing. Otherwise the session becomes \<^verbatim>\<open>completed\<close>
  with progress 100, \<^verbatim>\<open>completedAt\<close> the current time and the result attached, every
  phase becomes \<^verbatim>\<open>completed\<close> with progress 100 (the phase identities are kept), the
  flag \<^verbatim>\<open>isGenerating\<close> is cleared, and the finalized session is put at the front of
  the history list, before the older entries, not after them.
\<close>

theorem completeGeneration_postcondition:
  "(currentGeneration s = None \<longrightarrow> completeGeneration now res s = s) \<and>
   (\<forall>current. currentGeneration s = Some current \<longrightarrow>
      (\<exists>c. currentGeneration (completeGeneration now res s) = Some c \<and>
           gen_status c = Completed \<and> gen_progress c = JNum 100 \<and>
           gen_completedAt c = Some (DateAt now) \<and>
           (\<forall>st \<in> set (gen_steps c).
              step_status st = Completed \<and> step_progress st = JNum 100) \<and>
           map step_id (gen_steps c) = map step_id (gen_steps current) \<and>
           gen_result c = Some res \<and>
           generationHistory (completeGeneration now res s) = c # generationHistory s \<and>
           \<not> isGenerating (completeGeneration now res s)))"
  by (auto simp: completeGeneration_def completedGeneration_def)

text \<open>Witness for C3: the empty store, and the store in which \<^verbatim>\<open>g2\<close> is running.\<close>

theorem completeGeneration_postcondition_witness:
  "currentGeneration initial_slice = None \<and>
   completeGeneration 4000 (JObj []) initial_slice = initial_slice \<and>
   currentGeneration example_second =
     Some (newGeneration (JStr ''g2'') 3000 example_business) \<and>
   (\<exists>c. currentGeneration (completeGeneration 4000 (JObj []) example_second) = Some c \<and>
        gen_status c = Completed \<and>
        generationHistory (completeGeneration 4000 (JObj []) example_second) =
          c # generationHistory example_second \<and>
        \<not> isGenerating (completeGeneration 4000 (JObj []) example_second))"
proof -
  have a: "currentGeneration initial_slice = None"
    by (simp add: initial_slice_def)
  have b: "currentGeneration example_second =
     Some (newGeneration (JStr ''g2'') 3000 example_business)"
    by (simp add: example_second_eq)
  from a completeGeneration_postcondition [of initial_slice 4000 "JObj []"]
  have c: "completeGeneration 4000 (JObj []) initial_slice = initial_slice"
    by blast
  from b completeGeneration_postcondition [of example_second 4000 "JObj []"]
  have d: "\<exists>c. currentGeneration (completeGeneration 4000 (JObj []) example_second) = Some c \<and>
        gen_status c = Completed \<and>
        generationHistory (completeGeneration 4000 (JObj []) example_second) =
          c # generationHistory example_second \<and>
        \<not> isGenerating (completeGeneration 4000 (JObj []) example_second)"
    by blast
  from a b c d show ?thesis by simp
qed

text \<open>
  Counterexample to C3 as written: with \<^verbatim>\<open>g1\<close> already in the history, completing
  \<^verbatim>\<open>g2\<close> does not append it: the history is not the old history followed by the
  finalized session, the finalized session comes first.
\<close>

theorem completeGeneration_appends_counterexample:
  "currentGeneration example_second =
     Some (newGeneration (JStr ''g2'') 3000 example_business) \<and>
   generationHistory (completeGeneration 4000 (JObj []) example_second) \<noteq>
     generationHistory example_second @
       [completedGeneration 4000 (JObj [])
          (newGeneration (JStr ''g2'') 3000 example_business)] \<and>
   generationHistory (completeGeneration 4000 (JObj []) example_second) =
     completedGeneration 4000 (JObj [])
       (newGeneration (JStr ''g2'') 3000 example_business) #
     generationHistory example_second"
  by (simp add: example_second_eq completeGeneration_def completedGeneration_def
        newGeneration_def)

text \<open>
  C5 (cancellation locality). With a current session, \<^verbatim>\<open>cancelGeneration\<close> clears
  \<^verbatim>\<open>currentGeneration\<close> and \<^verbatim>\<open>isGenerating\<close> whatever the outcome of the remote
  request; the store is the same whether the request is rejected or resolved, and a
  rejection only adds a line to the console.
\<close>

theorem cancelGeneration_local:
  "currentGeneration s = Some current \<Longrightarrow>
     fst (cancelGeneration remote s) = s\<lparr>currentGeneration := None, isGenerating := False\<rparr> \<and>
     currentGeneration (fst (cancelGeneration remote s)) = None \<and>
     \<not> isGenerating (fst (cancelGeneration remote s)) \<and>
     fst (cancelGeneration (Inl e) s) = fst (cancelGeneration (Inr r) s) \<and>
     snd (cancelGeneration (Inl e) s) = [CancelRequest (gen_id current), ConsoleError e] \<and>
     snd (cancelGeneration (Inr r) s) = [CancelRequest (gen_id current)]"
  by (simp add: cancelGeneration_def)

text \<open>Witness for C5: cancelling \<^verbatim>\<open>g1\<close> while the network is down.\<close>

theorem cancelGeneration_local_witness:
  "currentGeneration example_running =
     Some (newGeneration (JStr ''g1'') 1000 example_business) \<and>
   currentGeneration
     (fst (cancelGeneration (Inl (Rejection (JObj [(''message'', JStr ''Network Error'')])))
            example_running)) = None \<and>
   \<not> isGenerating
     (fst (cancelGeneration (Inl (Rejection (JObj [(''message'', JStr ''Network Error'')])))
            example_running)) \<and>
   snd (cancelGeneration (Inl (Rejection (JObj [(''message'', JStr ''Network Error'')])))
          example_running) =
     [CancelRequest (JStr ''g1''),
      ConsoleError (Rejection (JObj [(''message'', JStr ''Network Error'')]))]"
proof -
  have a: "currentGeneration example_running =
     Some (newGeneration (JStr ''g1'') 1000 example_business)"
    by (simp add: example_running_eq)
  have b: "gen_id (newGeneration (JStr ''g1'') 1000 example_business) = JStr ''g1''"
    by (simp add: newGeneration_def)
  from cancelGeneration_local
    [OF a, of "Inl (Rejection (JObj [(''message'', JStr ''Network Error'')]))"
       "Rejection (JObj [(''message'', JStr ''Network Error'')])" JNull]
    a b
  show ?thesis by simp
qed

text \<open>
  C8 (phase isolation). With a current session, a progress event whose step matches no
  phase id changes the overall progress and nothing else; and whatever the step, the
  phase list keeps its length, its identifiers and its names.
\<close>

theorem updateProgress_phase_isolation:
  "currentGeneration s = Some current \<Longrightarrow>
     ((\<forall>st \<in> set (gen_steps current). JStr (step_id st) \<noteq> p_step p) \<longrightarrow>
        updateProgress p s =
          s\<lparr>currentGeneration := Some (current\<lparr>gen_progress := p_progress p\<rparr>)\<rparr>) \<and>
     (\<exists>c. currentGeneration (updateProgress p s) = Some c \<and>
          gen_progress c = p_progress p \<and>
          length (gen_steps c) = length (gen_steps current) \<and>
          map step_id (gen_steps c) = map step_id (gen_steps current) \<and>
          map step_name (gen_steps c) = map step_name (gen_steps current))"
  by (auto simp: updateProgress_def map_idI
        intro!: arg_cong [where f = "\<lambda>x. s\<lparr>currentGeneration := Some x\<rparr>"])

text \<open>Witness for C8: a progress event for the step \<^verbatim>\<open>Unknown\<close>.\<close>

theorem updateProgress_phase_isolation_witness:
  "currentGeneration example_running =
     Some (newGeneration (JStr ''g1'') 1000 example_business) \<and>
   JStr ''content'' \<noteq> JStr ''Unknown'' \<and> JStr ''design'' \<noteq> JStr ''Unknown'' \<and>
   JStr ''structure'' \<noteq> JStr ''Unknown'' \<and> JStr ''quality'' \<noteq> JStr ''Unknown'' \<and>
   updateProgress (example_progress\<lparr>p_step := JStr ''Unknown''\<rparr>) example_running =
     example_running\<lparr>currentGeneration :=
       Some ((newGeneration (JStr ''g1'') 1000 example_business)
               \<lparr>gen_progress := JNum 40\<rparr>)\<rparr>"
proof -
  have a: "currentGeneration example_running =
     Some (newGeneration (JStr ''g1'') 1000 example_business)"
    by (simp add: example_running_eq)
  have b: "\<forall>st \<in> set (gen_steps (newGeneration (JStr ''g1'') 1000 example_business)).
             JStr (step_id st) \<noteq> p_step (example_progress\<lparr>p_step := JStr ''Unknown''\<rparr>)"
    by (simp add: newGeneration_def initial_steps_def)
  have c: "p_progress (example_progress\<lparr>p_step := JStr ''Unknown''\<rparr>) = JNum 40"
    by (simp add: example_progress_def)
  from updateProgress_phase_isolation
    [OF a, of "example_progress\<lparr>p_step := JStr ''Unknown''\<rparr>"] b
  have "updateProgress (example_progress\<lparr>p_step := JStr ''Unknown''\<rparr>) example_running =
     example_running\<lparr>currentGeneration :=
       Some ((newGeneration (JStr ''g1'') 1000 example_business)
               \<lparr>gen_progress := p_progress (example_progress\<lparr>p_step := JStr ''Unknown''\<rparr>)\<rparr>)\<rparr>"
    by blast
  with a c show ?thesis by simp
qed

text \<open>
  C6 (result/error exclusivity), as amended. No action checks whether the other field
  is already set, so the claim as written fails (see the counterexample below). What
  holds for every sequence of the six operations: the result of the current session is
  the payload of the last \<^verbatim>\<open>completeGeneration\<close> applied since the last successful
  \<^verbatim>\<open>startGeneration\<close> and its error the error of the last \<^verbatim>\<open>failGeneration\<close>
  applied since, each unset when there was none; so from the initial store the session
  does not carry both unless both calls were made since it was started, in particular
  not along a sequence without \<^verbatim>\<open>failGeneration\<close> or without
  \<^verbatim>\<open>completeGeneration\<close>. A field is written by its own call only and by every such
  call: \<^verbatim>\<open>updateProgress\<close> keeps both fields, \<^verbatim>\<open>completeGeneration\<close> keeps the
  error and sets the result to its payload whatever it was, \<^verbatim>\<open>failGeneration\<close> keeps
  the result and sets the error to its argument whatever it was; so along inbound
  events the result stays as it is until the next \<^verbatim>\<open>completeGeneration\<close> and the
  error until the next \<^verbatim>\<open>failGeneration\<close>: a field is assigned once for every call
  of its own operation and never otherwise, so at most once for a session that receives
  that call at most once.
\<close>

theorem result_error_assignment:
  "(carries_result s r \<and> carries_error s e \<longrightarrow>
      carries_result (run ops s) (tracked_result ops r) \<and>
      carries_error (run ops s) (tracked_error ops e)) \<and>
   (tracked_result ops None = None \<or> tracked_error ops None = None \<longrightarrow>
      exclusive (run ops initial_slice)) \<and>
   ((\<forall>op \<in> set ops. \<not> is_fail op) \<or> (\<forall>op \<in> set ops. \<not> is_complete op) \<longrightarrow>
      exclusive (run ops initial_slice)) \<and>
   map_option gen_result (currentGeneration (updateProgress p s)) =
     map_option gen_result (currentGeneration s) \<and>
   map_option gen_error (currentGeneration (updateProgress p s)) =
     map_option gen_error (currentGeneration s) \<and>
   map_option gen_error (currentGeneration (completeGeneration now res s)) =
     map_option gen_error (currentGeneration s) \<and>
   map_option gen_result (currentGeneration (failGeneration now err s)) =
     map_option gen_result (currentGeneration s) \<and>
   (currentGeneration s \<noteq> None \<longrightarrow>
      map_option gen_result (currentGeneration (completeGeneration now res s)) =
        Some (Some res) \<and>
      map_option gen_error (currentGeneration (failGeneration now err s)) =
        Some (Some err)) \<and>
   ((\<forall>op \<in> set ops. inbound op \<and> \<not> is_complete op) \<longrightarrow>
      map_option gen_result (currentGeneration (run ops s)) =
        map_option gen_result (currentGeneration s)) \<and>
   ((\<forall>op \<in> set ops. inbound op \<and> \<not> is_fail op) \<longrightarrow>
      map_option gen_error (currentGeneration (run ops s)) =
        map_option gen_error (currentGeneration s))"
proof (intro conjI)
  show "carries_result s r \<and> carries_error s e \<longrightarrow>
      carries_result (run ops s) (tracked_result ops r) \<and>
      carries_error (run ops s) (tracked_error ops e)"
    by (simp add: carries_run)
  have init: "carries_result initial_slice None" "carries_error initial_slice None"
    by (simp_all add: carries_result_def carries_error_def initial_slice_def)
  have tracked: "carries_result (run ops initial_slice) (tracked_result ops None)"
    "carries_error (run ops initial_slice) (tracked_error ops None)"
    using init by (simp_all add: carries_run)
  show excl: "tracked_result ops None = None \<or> tracked_error ops None = None \<longrightarrow>
      exclusive (run ops initial_slice)"
    using tracked
    by (auto simp: carries_result_def carries_error_def exclusive_def split: option.splits)
  show "(\<forall>op \<in> set ops. \<not> is_fail op) \<or> (\<forall>op \<in> set ops. \<not> is_complete op) \<longrightarrow>
      exclusive (run ops initial_slice)"
  proof
    assume "(\<forall>op \<in> set ops. \<not> is_fail op) \<or> (\<forall>op \<in> set ops. \<not> is_complete op)"
    then have "tracked_result ops None = None \<or> tracked_error ops None = None"
      using tracked_error_no_fail [of ops] tracked_result_no_complete [of ops] by auto
    with excl show "exclusive (run ops initial_slice)" by simp
  qed
  show "map_option gen_result (currentGeneration (updateProgress p s)) =
     map_option gen_result (currentGeneration s)"
    by (simp add: updateProgress_def split: option.splits)
  show "map_option gen_error (currentGeneration (updateProgress p s)) =
     map_option gen_error (currentGeneration s)"
    by (simp add: updateProgress_def split: option.splits)
  show "map_option gen_error (currentGeneration (completeGeneration now res s)) =
     map_option gen_error (currentGeneration s)"
    by (simp add: completeGeneration_def completedGeneration_def split: option.splits)
  show "map_option gen_result (currentGeneration (failGeneration now err s)) =
     map_option gen_result (currentGeneration s)"
    by (simp add: failGeneration_def split: option.splits)
  show "currentGeneration s \<noteq> None \<longrightarrow>
      map_option gen_result (currentGeneration (completeGeneration now res s)) =
        Some (Some res) \<and>
      map_option gen_error (currentGeneration (failGeneration now err s)) =
        Some (Some err)"
    by (auto simp: completeGeneration_def completedGeneration_def failGeneration_def)
  show "(\<forall>op \<in> set ops. inbound op \<and> \<not> is_complete op) \<longrightarrow>
      map_option gen_result (currentGeneration (run ops s)) =
        map_option gen_result (currentGeneration s)"
    by (simp add: result_kept_run)
  show "(\<forall>op \<in> set ops. inbound op \<and> \<not> is_fail op) \<longrightarrow>
      map_option gen_error (currentGeneration (run ops s)) =
        map_option gen_error (currentGeneration s)"
    by (simp add: error_kept_run)
qed

text \<open>
  Witness for C6. From the initial store: \<^verbatim>\<open>g1\<close> is started and fails, \<^verbatim>\<open>g2\<close> is
  started, progresses and completes; the session carries the payload and no error. On
  the completed session \<^verbatim>\<open>g1\<close>: a progress event and a failure leave the result as
  the completion assigned it, and a progress event and a second completion leave the
  error unset.
\<close>

theorem result_error_assignment_witness:
  "carries_result initial_slice None \<and> carries_error initial_slice None \<and>
   tracked_result
     [StartGeneration (Inr (JObj [(''generation_id'', JStr ''g1'')])) ''uuid-1'' 1000
        example_business,
      FailGeneration 1500 example_error,
      StartGeneration (Inr (JObj [(''generation_id'', JStr ''g2'')])) ''uuid-2'' 3000
        example_business,
      UpdateProgress example_progress,
      CompleteGeneration 4000 (JNum 1)] None = Some (JNum 1) \<and>
   tracked_error
     [StartGeneration (Inr (JObj [(''generation_id'', JStr ''g1'')])) ''uuid-1'' 1000
        example_business,
      FailGeneration 1500 example_error,
      StartGeneration (Inr (JObj [(''generation_id'', JStr ''g2'')])) ''uuid-2'' 3000
        example_business,
      UpdateProgress example_progress,
      CompleteGeneration 4000 (JNum 1)] None = None \<and>
   carries_result
     (run [StartGeneration (Inr (JObj [(''generation_id'', JStr ''g1'')])) ''uuid-1'' 1000
             example_business,
           FailGeneration 1500 example_error,
           StartGeneration (Inr (JObj [(''generation_id'', JStr ''g2'')])) ''uuid-2'' 3000
             example_business,
           UpdateProgress example_progress,
           CompleteGeneration 4000 (JNum 1)] initial_slice) (Some (JNum 1)) \<and>
   exclusive
     (run [StartGeneration (Inr (JObj [(''generation_id'', JStr ''g1'')])) ''uuid-1'' 1000
             example_business,
           FailGeneration 1500 example_error,
           StartGeneration (Inr (JObj [(''generation_id'', JStr ''g2'')])) ''uuid-2'' 3000
             example_business,
           UpdateProgress example_progress,
           CompleteGeneration 4000 (JNum 1)] initial_slice) \<and>
   currentGeneration (completeGeneration 2000 (JNum 1) example_running) \<noteq> None \<and>
   inbound (UpdateProgress example_progress) \<and>
   inbound (FailGeneration 2500 example_error) \<and>
   \<not> is_complete (UpdateProgress example_progress) \<and>
   \<not> is_complete (FailGeneration 2500 example_error) \<and>
   map_option gen_result
     (currentGeneration
        (run [UpdateProgress example_progress, FailGeneration 2500 example_error]
           (completeGeneration 2000 (JNum 1) example_running))) = Some (Some (JNum 1)) \<and>
   inbound (CompleteGeneration 2500 (JNum 2)) \<and>
   \<not> is_fail (UpdateProgress example_progress) \<and>
   \<not> is_fail (CompleteGeneration 2500 (JNum 2)) \<and>
   map_option gen_error
     (currentGeneration
        (run [UpdateProgress example_progress, CompleteGeneration 2500 (JNum 2)]
           (completeGeneration 2000 (JNum 1) example_running))) = Some None"
proof -
  let ?ops = "[StartGeneration (Inr (JObj [(''generation_id'', JStr ''g1'')])) ''uuid-1'' 1000
        example_business,
      FailGeneration 1500 example_error,
      StartGeneration (Inr (JObj [(''generation_id'', JStr ''g2'')])) ''uuid-2'' 3000
        example_business,
      UpdateProgress example_progress,
      CompleteGeneration 4000 (JNum 1)]"
  let ?ops1 = "[UpdateProgress example_progress, FailGeneration 2500 example_error]"
  let ?ops2 = "[UpdateProgress example_progress, CompleteGeneration 2500 (JNum 2)]"
  let ?s = "completeGeneration 2000 (JNum 1) example_running"
  have a: "carries_result initial_slice None" "carries_error initial_slice None"
    by (simp_all add: carries_result_def carries_error_def initial_slice_def)
  have b: "tracked_result ?ops None = Some (JNum 1)" and c: "tracked_error ?ops None = None"
    by simp_all
  note t = result_error_assignment
    [of initial_slice None None ?ops example_progress 2000 "JNum 1" example_error]
  from a b t have d: "carries_result (run ?ops initial_slice) (Some (JNum 1))"
    by simp
  from c t have e: "exclusive (run ?ops initial_slice)"
    by blast
  have f: "currentGeneration ?s \<noteq> None"
    by (simp add: example_running_eq completeGeneration_def)
  have g: "map_option gen_result (currentGeneration ?s) = Some (Some (JNum 1))"
    and h: "map_option gen_error (currentGeneration ?s) = Some None"
    by (simp_all add: example_running_eq completeGeneration_def completedGeneration_def
          newGeneration_def)
  have i: "\<forall>op \<in> set ?ops1. inbound op \<and> \<not> is_complete op"
    and j: "\<forall>op \<in> set ?ops2. inbound op \<and> \<not> is_fail op"
    by simp_all
  note t1 = result_error_assignment
    [of ?s "Some (JNum 1)" None ?ops1 example_progress 2500 "JNum 2" example_error]
  note t2 = result_error_assignment
    [of ?s "Some (JNum 1)" None ?ops2 example_progress 2500 "JNum 2" example_error]
  from i t1 have "map_option gen_result (currentGeneration (run ?ops1 ?s)) =
      map_option gen_result (currentGeneration ?s)"
    by blast
  with g have k: "map_option gen_result (currentGeneration (run ?ops1 ?s)) =
      Some (Some (JNum 1))"
    by simp
  from j t2 have "map_option gen_error (currentGeneration (run ?ops2 ?s)) =
      map_option gen_error (currentGeneration ?s)"
    by blast
  with h have l: "map_option gen_error (currentGeneration (run ?ops2 ?s)) = Some None"
    by simp
  from a b c d e f k l show ?thesis by simp
qed

text \<open>
  Counterexample to C6 as written: failing and then completing the session \<^verbatim>\<open>g1\<close>
  leaves it with both a result and an error; and completing it twice assigns the result
  twice, the second value replacing the first.
\<close>

theorem exclusivity_counterexample:
  "map_option gen_result
     (currentGeneration
        (run [FailGeneration 1500 example_error, CompleteGeneration 2000 (JObj [])]
           example_running)) = Some (Some (JObj [])) \<and>
   map_option gen_error
     (currentGeneration
        (run [FailGeneration 1500 example_error, CompleteGeneration 2000 (JObj [])]
           example_running)) = Some (Some example_error) \<and>
   map_option gen_result
     (currentGeneration
        (run [CompleteGeneration 2000 (JNum 1)] example_running)) = Some (Some (JNum 1)) \<and>
   map_option gen_result
     (currentGeneration
        (run [CompleteGeneration 2000 (JNum 1), CompleteGeneration 2100 (JNum 2)]
           example_running)) = Some (Some (JNum 2))"
  by (simp add: example_running_eq completeGeneration_def completedGeneration_def
        failGeneration_def)

text \<open>
  C9 (failed sessions stay out of the history). \<^verbatim>\<open>failGeneration\<close> leaves the history
  unchanged, as does every operation other than \<^verbatim>\<open>completeGeneration\<close>; and when the
  history holds only completed sessions (as the empty history does), it still does
  after any sequence of operations.
\<close>

theorem history_only_completed:
  "generationHistory (failGeneration now err s) = generationHistory s \<and>
   (\<not> is_complete op \<longrightarrow> generationHistory (apply_op op s) = generationHistory s) \<and>
   ((\<forall>g \<in> set (generationHistory s). gen_status g = Completed) \<longrightarrow>
      (\<forall>g \<in> set (generationHistory (run ops s)). gen_status g = Completed)) \<and>
   generationHistory initial_slice = []"
proof (intro conjI)
  show "generationHistory (failGeneration now err s) = generationHistory s"
    by (simp add: failGeneration_def split: option.splits)
  show "\<not> is_complete op \<longrightarrow> generationHistory (apply_op op s) = generationHistory s"
    by (simp add: history_unchanged)
  show "(\<forall>g \<in> set (generationHistory s). gen_status g = Completed) \<longrightarrow>
      (\<forall>g \<in> set (generationHistory (run ops s)). gen_status g = Completed)"
  proof (induction ops arbitrary: s)
    case Nil
    show ?case by simp
  next
    case (Cons op ops)
    show ?case
    proof
      assume "\<forall>g \<in> set (generationHistory s). gen_status g = Completed"
      then have "\<forall>g \<in> set (generationHistory (apply_op op s)). gen_status g = Completed"
        by (rule history_completed_step)
      with Cons.IH [of "apply_op op s"]
      have "\<forall>g \<in> set (generationHistory (run ops (apply_op op s))).
              gen_status g = Completed"
        by (rule mp)
      then show "\<forall>g \<in> set (generationHistory (run (op # ops) s)). gen_status g = Completed"
        by simp
    qed
  qed
  show "generationHistory initial_slice = []"
    by (simp add: initial_slice_def)
qed

text \<open>
  Witness for C9: with \<^verbatim>\<open>g1\<close> completed in the history, \<^verbatim>\<open>g2\<close> fails and is
  cleared, a third session is started and completed.
\<close>

theorem history_only_completed_witness:
  "\<not> is_complete (FailGeneration 3500 example_error) \<and>
   generationHistory (apply_op (FailGeneration 3500 example_error) example_second) =
     generationHistory example_second \<and>
   map gen_status (generationHistory example_second) = [Completed] \<and>
   length
     (generationHistory
        (run [FailGeneration 3500 example_error, ClearCurrentGeneration,
              StartGeneration (Inr (JObj [])) ''uuid-3'' 4000 example_business,
              CompleteGeneration 5000 (JObj [])] example_second)) = 2 \<and>
   list_all (\<lambda>g. gen_status g = Completed)
     (generationHistory
        (run [FailGeneration 3500 example_error, ClearCurrentGeneration,
              StartGeneration (Inr (JObj [])) ''uuid-3'' 4000 example_business,
              CompleteGeneration 5000 (JObj [])] example_second))"
proof -
  have a: "\<not> is_complete (FailGeneration 3500 example_error)"
    by simp
  have b: "map gen_status (generationHistory example_second) = [Completed]"
    by (simp add: example_second_eq completedGeneration_def)
  then have c: "\<forall>g \<in> set (generationHistory example_second). gen_status g = Completed"
    by (simp add: example_second_eq completedGeneration_def)
  have d: "length
     (generationHistory
        (run [FailGeneration 3500 example_error, ClearCurrentGeneration,
              StartGeneration (Inr (JObj [])) ''uuid-3'' 4000 example_business,
              CompleteGeneration 5000 (JObj [])] example_second)) = 2"
    by (simp add: example_second_eq failGeneration_def clearCurrentGeneration_def
          startGeneration_def startGeneration_request_def completeGeneration_def)
  from a c history_only_completed
    [of 3500 example_error example_second "FailGeneration 3500 example_error"
        "[FailGeneration 3500 example_error, ClearCurrentGeneration,
              StartGeneration (Inr (JObj [])) ''uuid-3'' 4000 example_business,
              CompleteGeneration 5000 (JObj [])]"]
  have e: "generationHistory (apply_op (FailGeneration 3500 example_error) example_second) =
     generationHistory example_second"
    and f: "\<forall>g \<in> set (generationHistory
        (run [FailGeneration 3500 example_error, ClearCurrentGeneration,
              StartGeneration (Inr (JObj [])) ''uuid-3'' 4000 example_business,
              CompleteGeneration 5000 (JObj [])] example_second)). gen_status g = Completed"
    by blast+
  from f have g: "list_all (\<lambda>g. gen_status g = Completed)
     (generationHistory
        (run [FailGeneration 3500 example_error, ClearCurrentGeneration,
              StartGeneration (Inr (JObj [])) ''uuid-3'' 4000 example_business,
              CompleteGeneration 5000 (JObj [])] example_second))"
    by (simp only: list_all_iff)
  from a b d e g show ?thesis by blast
qed

text \<open>
  C10 (origin of the session id), as amended. When the request resolves with a response
  that is not \<^verbatim>\<open>null\<close>, \<^verbatim>\<open>startGeneration\<close> resolves and installs a fresh session;
  its id is the response's \<^verbatim>\<open>generation_id\<close> when that field is present and truthy,
  and the client-generated UUID when the field is absent or present but falsy (the empty
  string, \<^verbatim>\<open>0\<close>, \<^verbatim>\<open>null\<close>, \<^verbatim>\<open>false\<close>).
\<close>

theorem startGeneration_session_id:
  "response \<noteq> JNull \<Longrightarrow>
     fst (startGeneration (Inr response) uuid now bd s) = Inr () \<and>
     (\<exists>g. snd (startGeneration (Inr response) uuid now bd s) =
            s\<lparr>isGenerating := True, currentGeneration := Some (newGeneration g now bd)\<rparr>) \<and>
     (\<forall>v. field response ''generation_id'' = Some v \<and> truthy v \<longrightarrow>
          map_option gen_id
            (currentGeneration (snd (startGeneration (Inr response) uuid now bd s))) =
          Some v) \<and>
     (field response ''generation_id'' = None \<longrightarrow>
          map_option gen_id
            (currentGeneration (snd (startGeneration (Inr response) uuid now bd s))) =
          Some (JStr uuid)) \<and>
     (\<forall>v. field response ''generation_id'' = Some v \<and> \<not> truthy v \<longrightarrow>
          map_option gen_id
            (currentGeneration (snd (startGeneration (Inr response) uuid now bd s))) =
          Some (JStr uuid))"
proof -
  assume "response \<noteq> JNull"
  then have eq: "startGeneration (Inr response) uuid now bd s =
      (Inr (), s\<lparr>isGenerating := True,
                 currentGeneration :=
                   Some (newGeneration (or_else (field response ''generation_id'') (JStr uuid))
                           now bd)\<rparr>)"
    by (simp add: startGeneration_def startGeneration_request_def get_prop_field)
  have id: "map_option gen_id
            (currentGeneration (snd (startGeneration (Inr response) uuid now bd s))) =
          Some (or_else (field response ''generation_id'') (JStr uuid))"
    by (simp add: eq newGeneration_def)
  have ex: "\<exists>g. snd (startGeneration (Inr response) uuid now bd s) =
            s\<lparr>isGenerating := True, currentGeneration := Some (newGeneration g now bd)\<rparr>"
    by (rule exI [where x = "or_else (field response ''generation_id'') (JStr uuid)"])
       (simp add: eq)
  have gid: "gen_id (newGeneration g now bd) = g" for g
    by (simp add: newGeneration_def)
  from eq ex show ?thesis
    by (simp add: id or_else_def gid)
qed

text \<open>Witness for C10: a response with the id \<^verbatim>\<open>g1\<close>, and a response without an id.\<close>

theorem startGeneration_session_id_witness:
  "JObj [(''generation_id'', JStr ''g1'')] \<noteq> JNull \<and>
   field (JObj [(''generation_id'', JStr ''g1'')]) ''generation_id'' = Some (JStr ''g1'') \<and>
   truthy (JStr ''g1'') \<and>
   map_option gen_id
     (currentGeneration
        (snd (startGeneration (Inr (JObj [(''generation_id'', JStr ''g1'')])) ''uuid-1'' 1000
                example_business initial_slice))) = Some (JStr ''g1'') \<and>
   JObj [] \<noteq> JNull \<and>
   field (JObj []) ''generation_id'' = None \<and>
   map_option gen_id
     (currentGeneration
        (snd (startGeneration (Inr (JObj [])) ''uuid-1'' 1000 example_business
                initial_slice))) = Some (JStr ''uuid-1'')"
proof -
  have a: "JObj [(''generation_id'', JStr ''g1'')] \<noteq> JNull"
    by simp
  have b: "field (JObj [(''generation_id'', JStr ''g1'')]) ''generation_id'' =
             Some (JStr ''g1'')"
    by (simp add: field_def)
  have c: "truthy (JStr ''g1'')"
    by simp
  from b c startGeneration_session_id
    [OF a, of "''uuid-1''" 1000 example_business initial_slice]
  have d: "map_option gen_id
     (currentGeneration
        (snd (startGeneration (Inr (JObj [(''generation_id'', JStr ''g1'')])) ''uuid-1'' 1000
                example_business initial_slice))) = Some (JStr ''g1'')"
    by blast
  have e: "JObj [] \<noteq> JNull"
    by simp
  have f: "field (JObj []) ''generation_id'' = None"
    by (simp add: field_def)
  from f startGeneration_session_id
    [OF e, of "''uuid-1''" 1000 example_business initial_slice]
  have g: "map_option gen_id
     (currentGeneration
        (snd (startGeneration (Inr (JObj [])) ''uuid-1'' 1000 example_business
                initial_slice))) = Some (JStr ''uuid-1'')"
    by blast
  from a b c d e f g show ?thesis by blast
qed

text \<open>
  Counterexample to C10 as written: the response carries the field \<^verbatim>\<open>generation_id\<close>
  with the empty string as its value; the request succeeds, and the id of the new
  session is the client's UUID, not the field.
\<close>

theorem session_id_counterexample:
  "get_prop (JObj [(''generation_id'', JStr '''')]) ''generation_id'' =
     Inr (Some (JStr '''')) \<and>
   fst (startGeneration (Inr (JObj [(''generation_id'', JStr '''')])) ''uuid-1'' 1000
          example_business initial_slice) = Inr () \<and>
   map_option gen_id
     (currentGeneration
        (snd (startGeneration (Inr (JObj [(''generation_id'', JStr '''')])) ''uuid-1'' 1000
                example_business initial_slice))) = Some (JStr ''uuid-1'')"
  by (simp add: startGeneration_def startGeneration_request_def or_else_def
        newGeneration_def)

text \<open>
  C4 (creation-failure atomicity), as amended. When the creation request is rejected,
  \<^verbatim>\<open>startGeneration\<close> rejects with an \<^verbatim>\<open>Error\<close> built from the response's
  \<^verbatim>\<open>detail\<close> field when that field is present and truthy (for a non-empty string,
  the error's message is that string), and from the generic message
  \<^verbatim>\<open>Failed to start website generation\<close> when the field is absent or present but
  falsy (the empty string, \<^verbatim>\<open>0\<close>, \<^verbatim>\<open>null\<close>, \<^verbatim>\<open>false\<close>). Whenever
  \<^verbatim>\<open>startGeneration\<close> rejects, the store afterwards is the store before with
  \<^verbatim>\<open>isGenerating\<close> false: \<^verbatim>\<open>currentGeneration\<close> and the history are unchanged.
\<close>

theorem startGeneration_failure:
  "startGeneration (Inl apiError) uuid now bd s =
     (Inl (Error (or_else (error_detail apiError) generic_start_message)),
      s\<lparr>isGenerating := False\<rparr>) \<and>
   (\<forall>v. error_detail apiError = Some v \<and> truthy v \<longrightarrow>
        fst (startGeneration (Inl apiError) uuid now bd s) = Inl (Error v)) \<and>
   (error_detail apiError = None \<or> (\<exists>v. error_detail apiError = Some v \<and> \<not> truthy v) \<longrightarrow>
        fst (startGeneration (Inl apiError) uuid now bd s) =
          Inl (Error (JStr ''Failed to start website generation''))) \<and>
   (\<forall>e. fst (startGeneration api uuid now bd s) = Inl e \<longrightarrow>
        snd (startGeneration api uuid now bd s) = s\<lparr>isGenerating := False\<rparr> \<and>
        currentGeneration (snd (startGeneration api uuid now bd s)) = currentGeneration s \<and>
        \<not> isGenerating (snd (startGeneration api uuid now bd s)))"
proof (intro conjI)
  show eq: "startGeneration (Inl apiError) uuid now bd s =
     (Inl (Error (or_else (error_detail apiError) generic_start_message)),
      s\<lparr>isGenerating := False\<rparr>)"
    by (simp add: startGeneration_def startGeneration_request_def)
  show "\<forall>v. error_detail apiError = Some v \<and> truthy v \<longrightarrow>
        fst (startGeneration (Inl apiError) uuid now bd s) = Inl (Error v)"
    by (simp add: eq or_else_def)
  show "error_detail apiError = None \<or> (\<exists>v. error_detail apiError = Some v \<and> \<not> truthy v) \<longrightarrow>
        fst (startGeneration (Inl apiError) uuid now bd s) =
          Inl (Error (JStr ''Failed to start website generation''))"
    by (auto simp: eq or_else_def generic_start_message_def)
  show "\<forall>e. fst (startGeneration api uuid now bd s) = Inl e \<longrightarrow>
        snd (startGeneration api uuid now bd s) = s\<lparr>isGenerating := False\<rparr> \<and>
        currentGeneration (snd (startGeneration api uuid now bd s)) = currentGeneration s \<and>
        \<not> isGenerating (snd (startGeneration api uuid now bd s))"
    using startGeneration_cases [of api uuid now bd s] by auto
qed

text \<open>
  Witness for C4: a rejection with a detail while the completed session \<^verbatim>\<open>g1\<close> is
  current, and a network error without a response while \<^verbatim>\<open>g1\<close> is running.
\<close>

theorem startGeneration_failure_witness:
  "error_detail (example_rejection ''Business name is required'') =
     Some (JStr ''Business name is required'') \<and>
   truthy (JStr ''Business name is required'') \<and>
   fst (startGeneration (Inl (example_rejection ''Business name is required'')) ''uuid-2'' 3000
          example_business (completeGeneration 2000 (JObj []) example_running)) =
     Inl (Error (JStr ''Business name is required'')) \<and>
   currentGeneration
     (snd (startGeneration (Inl (example_rejection ''Business name is required'')) ''uuid-2''
             3000 example_business (completeGeneration 2000 (JObj []) example_running))) =
     currentGeneration (completeGeneration 2000 (JObj []) example_running) \<and>
   error_detail (Rejection (JObj [(''message'', JStr ''Network Error'')])) = None \<and>
   fst (startGeneration (Inl (Rejection (JObj [(''message'', JStr ''Network Error'')])))
          ''uuid-2'' 3000 example_business example_running) =
     Inl (Error (JStr ''Failed to start website generation'')) \<and>
   \<not> isGenerating
     (snd (startGeneration (Inl (Rejection (JObj [(''message'', JStr ''Network Error'')])))
             ''uuid-2'' 3000 example_business example_running))"
proof -
  have a: "error_detail (example_rejection ''Business name is required'') =
     Some (JStr ''Business name is required'')"
    by (simp add: example_rejection_def)
  have b: "truthy (JStr ''Business name is required'')"
    by simp
  have c: "error_detail (Rejection (JObj [(''message'', JStr ''Network Error'')])) = None"
    by simp
  note t1 = startGeneration_failure
    [of "example_rejection ''Business name is required''" "''uuid-2''" 3000 example_business
        "completeGeneration 2000 (JObj []) example_running"
        "Inl (example_rejection ''Business name is required'')"]
  note t2 = startGeneration_failure
    [of "Rejection (JObj [(''message'', JStr ''Network Error'')])" "''uuid-2''" 3000
        example_business example_running
        "Inl (Rejection (JObj [(''message'', JStr ''Network Error'')]))"]
  from a b t1 have d: "fst (startGeneration
          (Inl (example_rejection ''Business name is required'')) ''uuid-2'' 3000
          example_business (completeGeneration 2000 (JObj []) example_running)) =
     Inl (Error (JStr ''Business name is required''))"
    by blast
  from d t1 have e: "currentGeneration
     (snd (startGeneration (Inl (example_rejection ''Business name is required'')) ''uuid-2''
             3000 example_business (completeGeneration 2000 (JObj []) example_running))) =
     currentGeneration (completeGeneration 2000 (JObj []) example_running)"
    by blast
  from c t2 have f: "fst (startGeneration
          (Inl (Rejection (JObj [(''message'', JStr ''Network Error'')])))
          ''uuid-2'' 3000 example_business example_running) =
     Inl (Error (JStr ''Failed to start website generation''))"
    by blast
  from f t2 have g: "\<not> isGenerating
     (snd (startGeneration (Inl (Rejection (JObj [(''message'', JStr ''Network Error'')])))
             ''uuid-2'' 3000 example_business example_running))"
    by blast
  from a b c d e f g show ?thesis by blast
qed

text \<open>
  Counterexample to C4 as written: the response carries a \<^verbatim>\<open>detail\<close> field, the empty
  string, and \<^verbatim>\<open>startGeneration\<close> rejects with the generic message, not with the
  field.
\<close>

theorem failure_detail_counterexample:
  "error_detail (example_rejection '''') = Some (JStr '''') \<and>
   fst (startGeneration (Inl (example_rejection '''')) ''uuid-1'' 1000 example_business
          initial_slice) = Inl (Error (JStr ''Failed to start website generation''))"
  by (simp add: example_rejection_def startGeneration_def startGeneration_request_def
        or_else_def generic_start_message_def)

section \<open>The reconnection schedule\<close>

text \<open>A closure while attempts are left: the delay doubles with every attempt made so
  far, the counter goes up by one, and the reconnection leaves the counter, the limits,
  the session id and the current session as they are.\<close>

lemma failed_attempt_retry:
  assumes "reconnectAttempts ws < maxReconnectAttempts ws" and "generationId ws = Some g"
  shows "snd (failed_attempt tid now (ws, s)) =
           Some (reconnectInterval ws * 2 ^ reconnectAttempts ws)"
    and "reconnectAttempts (fst (fst (failed_attempt tid now (ws, s)))) =
           reconnectAttempts ws + 1"
    and "maxReconnectAttempts (fst (fst (failed_attempt tid now (ws, s)))) =
           maxReconnectAttempts ws"
    and "reconnectInterval (fst (fst (failed_attempt tid now (ws, s)))) =
           reconnectInterval ws"
    and "generationId (fst (fst (failed_attempt tid now (ws, s)))) = Some g"
    and "currentGeneration (snd (fst (failed_attempt tid now (ws, s)))) =
           currentGeneration s"
  using assms
  by (simp_all add: failed_attempt_def socket_closed_def onclose_def handleReconnect_def
        reconnect_def connect_def disconnect_def setWsConnected_def Let_def
        split: option.splits)

text \<open>A closure when no attempt is left: no timeout, and the session is failed.\<close>

lemma failed_attempt_give_up:
  assumes "\<not> reconnectAttempts ws < maxReconnectAttempts ws"
  shows "failed_attempt tid now (ws, s) =
           ((ws\<lparr>socket := map_option (\<lambda>rs. CLOSED) (socket ws), pingInterval := None\<rparr>,
             failGeneration now connection_lost (setWsConnected False s)), None)"
  using assms
  by (simp add: failed_attempt_def socket_closed_def onclose_def handleReconnect_def Let_def)

lemma failed_attempts_Suc:
  "snd (failed_attempts (Suc k) tid now st) =
     snd (failed_attempt tid now st) #
     snd (failed_attempts k tid now (fst (failed_attempt tid now st)))"
  "fst (failed_attempts (Suc k) tid now st) =
     fst (failed_attempts k tid now (fst (failed_attempt tid now st)))"
  by (simp_all add: split_beta)

lemma failed_attempts_schedule:
  assumes "reconnectAttempts ws + k \<le> maxReconnectAttempts ws"
    and "generationId ws = Some g"
  shows "snd (failed_attempts k tid now (ws, s)) =
           map (\<lambda>i. Some (reconnectInterval ws * 2 ^ (reconnectAttempts ws + i))) [0..<k] \<and>
         reconnectAttempts (fst (fst (failed_attempts k tid now (ws, s)))) =
           reconnectAttempts ws + k \<and>
         maxReconnectAttempts (fst (fst (failed_attempts k tid now (ws, s)))) =
           maxReconnectAttempts ws \<and>
         currentGeneration (snd (fst (failed_attempts k tid now (ws, s)))) =
           currentGeneration s"
  using assms
proof (induction k arbitrary: ws s)
  case 0
  show ?case by simp
next
  case (Suc k)
  obtain ws1 s1 where st1: "fst (failed_attempt tid now (ws, s)) = (ws1, s1)"
    by (cases "fst (failed_attempt tid now (ws, s))")
  from Suc.prems have lt: "reconnectAttempts ws < maxReconnectAttempts ws"
    by simp
  note step = failed_attempt_retry [OF lt Suc.prems(2), of tid now s]
  from step st1 have ws1: "reconnectAttempts ws1 = reconnectAttempts ws + 1"
      "maxReconnectAttempts ws1 = maxReconnectAttempts ws"
      "reconnectInterval ws1 = reconnectInterval ws"
      "generationId ws1 = Some g"
      "currentGeneration s1 = currentGeneration s"
    by simp_all
  from Suc.prems ws1 have "reconnectAttempts ws1 + k \<le> maxReconnectAttempts ws1"
    by simp
  from Suc.IH [OF this ws1(4), of s1]
  have ih: "snd (failed_attempts k tid now (ws1, s1)) =
           map (\<lambda>i. Some (reconnectInterval ws * 2 ^ (reconnectAttempts ws + 1 + i))) [0..<k]"
      "reconnectAttempts (fst (fst (failed_attempts k tid now (ws1, s1)))) =
           reconnectAttempts ws + 1 + k"
      "maxReconnectAttempts (fst (fst (failed_attempts k tid now (ws1, s1)))) =
           maxReconnectAttempts ws"
      "currentGeneration (snd (fst (failed_attempts k tid now (ws1, s1)))) =
           currentGeneration s"
    by (simp_all add: ws1)
  have "map (\<lambda>i. Some (reconnectInterval ws * 2 ^ (reconnectAttempts ws + i))) [0..<Suc k] =
        Some (reconnectInterval ws * 2 ^ reconnectAttempts ws) #
        map (\<lambda>i. Some (reconnectInterval ws * 2 ^ (reconnectAttempts ws + 1 + i))) [0..<k]"
    by (simp add: upt_conv_Cons map_Suc_upt [symmetric] del: upt_Suc)
  with ih step(1) st1 show ?case
    by (simp add: failed_attempts_Suc del: upt_Suc failed_attempts.simps)
qed

text \<open>
  C2 (backoff schedule). From a service with the counter at zero (a fresh one, or one
  whose socket has opened), the limit 5 and the base delay 1000, five consecutive failed
  attempts schedule reconnections after 1000, 2000, 4000, 8000 and 16000 ms, that is
  after \<open>1000 * 2 ^ (n - 1)\<close> ms for the \<open>n\<close>-th; the closure after the fifth schedules
  nothing and marks the current session failed with the code \<^verbatim>\<open>CONNECTION_LOST\<close>.
\<close>

theorem backoff_schedule:
  assumes "reconnectAttempts ws = 0" and "maxReconnectAttempts ws = 5"
    and "reconnectInterval ws = 1000" and "generationId ws = Some g"
    and "currentGeneration s = Some c"
  shows "snd (failed_attempts 5 tid now (ws, s)) =
           [Some 1000, Some 2000, Some 4000, Some 8000, Some 16000] \<and>
         (\<forall>n. 1 \<le> n \<and> n \<le> 5 \<longrightarrow>
            snd (failed_attempts 5 tid now (ws, s)) ! (n - 1) = Some (1000 * 2 ^ (n - 1))) \<and>
         snd (failed_attempt tid now (fst (failed_attempts 5 tid now (ws, s)))) = None \<and>
         currentGeneration
           (snd (fst (failed_attempt tid now (fst (failed_attempts 5 tid now (ws, s)))))) =
           Some (c\<lparr>gen_status := Failed, gen_error := Some connection_lost,
                   gen_completedAt := Some (DateAt now)\<rparr>) \<and>
         err_code connection_lost = JStr ''CONNECTION_LOST''"
proof -
  from assms have le: "reconnectAttempts ws + 5 \<le> maxReconnectAttempts ws"
    by simp
  note sched = failed_attempts_schedule [OF le assms(4), of tid now s]
  have delays: "snd (failed_attempts 5 tid now (ws, s)) =
           map (\<lambda>i. Some (1000 * 2 ^ i)) [0..<5]"
    using sched assms by simp
  have upt5: "[0..<5] = [0, 1, 2, 3, 4::nat]"
    by (simp add: upt_conv_Cons)
  have list: "snd (failed_attempts 5 tid now (ws, s)) =
           [Some 1000, Some 2000, Some 4000, Some 8000, Some 16000]"
    by (simp add: delays upt5)
  have formula: "\<forall>n. 1 \<le> n \<and> n \<le> 5 \<longrightarrow>
            snd (failed_attempts 5 tid now (ws, s)) ! (n - 1) = Some (1000 * 2 ^ (n - 1))"
  proof (intro allI impI)
    fix n :: nat
    assume "1 \<le> n \<and> n \<le> 5"
    then have "n - 1 < 5" by arith
    then show "snd (failed_attempts 5 tid now (ws, s)) ! (n - 1) = Some (1000 * 2 ^ (n - 1))"
      by (simp add: delays del: upt_Suc)
  qed
  obtain ws5 s5 where st5: "fst (failed_attempts 5 tid now (ws, s)) = (ws5, s5)"
    by (cases "fst (failed_attempts 5 tid now (ws, s))")
  from sched st5 assms have five: "\<not> reconnectAttempts ws5 < maxReconnectAttempts ws5"
      "currentGeneration s5 = Some c"
    by simp_all
  from failed_attempt_give_up [OF five(1), of tid now s5]
  have last: "failed_attempt tid now (ws5, s5) =
           ((ws5\<lparr>socket := map_option (\<lambda>rs. CLOSED) (socket ws5), pingInterval := None\<rparr>,
             failGeneration now connection_lost (setWsConnected False s5)), None)" .
  have none: "snd (failed_attempt tid now (fst (failed_attempts 5 tid now (ws, s)))) = None"
    by (simp add: st5 last)
  have failed: "currentGeneration
           (snd (fst (failed_attempt tid now (fst (failed_attempts 5 tid now (ws, s)))))) =
           Some (c\<lparr>gen_status := Failed, gen_error := Some connection_lost,
                   gen_completedAt := Some (DateAt now)\<rparr>)"
    using five(2) by (simp add: st5 last failGeneration_def setWsConnected_def)
  have code: "err_code connection_lost = JStr ''CONNECTION_LOST''"
    by (simp add: connection_lost_def)
  from list formula none failed code show ?thesis by blast
qed

text \<open>Witness for C2: the channel of the running session \<^verbatim>\<open>g1\<close>, closed six times.\<close>

theorem backoff_schedule_witness:
  "reconnectAttempts (fst example_connected) = 0 \<and>
   maxReconnectAttempts (fst example_connected) = 5 \<and>
   reconnectInterval (fst example_connected) = 1000 \<and>
   generationId (fst example_connected) = Some ''g1'' \<and>
   currentGeneration (snd example_connected) =
     Some (newGeneration (JStr ''g1'') 1000 example_business) \<and>
   snd (failed_attempts 5 2 5000 example_connected) =
     [Some 1000, Some 2000, Some 4000, Some 8000, Some 16000] \<and>
   snd (failed_attempts 5 2 5000 example_connected) ! (3 - 1) = Some (1000 * 2 ^ (3 - 1)) \<and>
   snd (failed_attempt 2 5000 (fst (failed_attempts 5 2 5000 example_connected))) = None \<and>
   map_option gen_status
     (currentGeneration
        (snd (fst (failed_attempt 2 5000
                     (fst (failed_attempts 5 2 5000 example_connected)))))) = Some Failed"
proof -
  have conn: "example_connected =
      (new_service\<lparr>generationId := Some ''g1'', pingInterval := Some 1,
                    socket := Some CONNECTING\<rparr>, example_running)"
    by (simp add: example_connected_def connect_def disconnect_def new_service_def)
  have a: "reconnectAttempts (fst example_connected) = 0"
    and b: "maxReconnectAttempts (fst example_connected) = 5"
    and c: "reconnectInterval (fst example_connected) = 1000"
    and d: "generationId (fst example_connected) = Some ''g1''"
    by (simp_all add: conn new_service_def)
  have e: "currentGeneration (snd example_connected) =
     Some (newGeneration (JStr ''g1'') 1000 example_business)"
    by (simp add: conn example_running_eq)
  have pair: "(fst example_connected, snd example_connected) = example_connected"
    by simp
  note t = backoff_schedule [OF a b c d e, of 2 5000, unfolded pair]
  from t have f: "snd (failed_attempts 5 2 5000 example_connected) =
     [Some 1000, Some 2000, Some 4000, Some 8000, Some 16000]"
    by blast
  have three: "1 \<le> (3::nat) \<and> (3::nat) \<le> 5"
    by simp
  from t three have g: "snd (failed_attempts 5 2 5000 example_connected) ! (3 - 1) =
     Some (1000 * 2 ^ (3 - 1))"
    by blast
  from t have h: "snd (failed_attempt 2 5000
     (fst (failed_attempts 5 2 5000 example_connected))) = None"
    by blast
  from t have "currentGeneration
        (snd (fst (failed_attempt 2 5000
                     (fst (failed_attempts 5 2 5000 example_connected))))) =
      Some ((newGeneration (JStr ''g1'') 1000 example_business)
              \<lparr>gen_status := Failed, gen_error := Some connection_lost,
                gen_completedAt := Some (DateAt 5000)\<rparr>)"
    by blast
  then have i: "map_option gen_status
     (currentGeneration
        (snd (fst (failed_attempt 2 5000
                     (fst (failed_attempts 5 2 5000 example_connected)))))) = Some Failed"
    by simp
  from a b c d e f g h i show ?thesis by blast
qed

text \<open>
  C7 (tolerance of missing fields). A \<^verbatim>\<open>progress_update\<close> frame without
  \<^verbatim>\<open>progress\<close>, \<^verbatim>\<open>message\<close> and \<^verbatim>\<open>timestamp\<close> does not make the handler's body
  throw; it is decoded into a progress event with progress 0, the empty message and the
  time of receipt as its timestamp, and that event is applied to the store: a current
  session gets the overall progress 0.
\<close>

theorem progress_update_defaults:
  assumes "map_of fs ''type'' = Some (JStr ''progress_update'')"
    and "map_of fs ''progress'' = None" and "map_of fs ''message'' = None"
    and "map_of fs ''timestamp'' = None"
  shows "onmessage_try ws now (Inr (JObj fs)) s =
           Inr (updateProgress (decode_progress ws now (JObj fs)) s) \<and>
         onmessage ws now (Inr (JObj fs)) s =
           updateProgress (decode_progress ws now (JObj fs)) s \<and>
         p_progress (decode_progress ws now (JObj fs)) = JNum 0 \<and>
         p_message (decode_progress ws now (JObj fs)) = Some (JStr '''') \<and>
         p_timestamp (decode_progress ws now (JObj fs)) = DateAt now \<and>
         p_step (decode_progress ws now (JObj fs)) =
           or_else (map_of fs ''step'') (JStr ''Unknown'') \<and>
         p_stepProgress (decode_progress ws now (JObj fs)) =
           or_else (map_of fs ''step_progress'') (JNum 0) \<and>
         (currentGeneration s \<noteq> None \<longrightarrow>
            map_option gen_progress
              (currentGeneration (onmessage ws now (Inr (JObj fs)) s)) = Some (JNum 0))"
proof -
  have body: "onmessage_try ws now (Inr (JObj fs)) s =
           Inr (updateProgress (decode_progress ws now (JObj fs)) s)"
    using assms(1) by (simp add: onmessage_try_def)
  then have handler: "onmessage ws now (Inr (JObj fs)) s =
           updateProgress (decode_progress ws now (JObj fs)) s"
    by (simp add: onmessage_def)
  have fields: "p_progress (decode_progress ws now (JObj fs)) = JNum 0"
    "p_message (decode_progress ws now (JObj fs)) = Some (JStr '''')"
    "p_timestamp (decode_progress ws now (JObj fs)) = DateAt now"
    "p_step (decode_progress ws now (JObj fs)) = or_else (map_of fs ''step'') (JStr ''Unknown'')"
    "p_stepProgress (decode_progress ws now (JObj fs)) =
       or_else (map_of fs ''step_progress'') (JNum 0)"
    using assms(2-4) by (simp_all add: decode_progress_def js_defs split: option.splits)
  have applied: "currentGeneration s \<noteq> None \<longrightarrow>
            map_option gen_progress
              (currentGeneration (onmessage ws now (Inr (JObj fs)) s)) = Some (JNum 0)"
    using fields(1) by (auto simp: handler updateProgress_def)
  from body handler fields applied show ?thesis by blast
qed

text \<open>Witness for C7: the frame \<^verbatim>\<open>{"type": "progress_update"}\<close> received at 1500 while
  \<^verbatim>\<open>g1\<close> is running.\<close>

theorem progress_update_defaults_witness:
  "map_of [(''type'', JStr ''progress_update'')] ''type'' = Some (JStr ''progress_update'') \<and>
   map_of [(''type'', JStr ''progress_update'')] ''progress'' = None \<and>
   map_of [(''type'', JStr ''progress_update'')] ''message'' = None \<and>
   map_of [(''type'', JStr ''progress_update'')] ''timestamp'' = None \<and>
   currentGeneration example_running \<noteq> None \<and>
   onmessage_try (fst example_connected) 1500
       (Inr (JObj [(''type'', JStr ''progress_update'')])) example_running =
     Inr (updateProgress
            \<lparr>p_generationId = JStr ''g1'', p_progress = JNum 0, p_step = JStr ''Unknown'',
             p_stepProgress = JNum 0, p_message = Some (JStr ''''),
             p_timestamp = DateAt 1500\<rparr> example_running) \<and>
   map_option gen_progress
     (currentGeneration
        (onmessage (fst example_connected) 1500
           (Inr (JObj [(''type'', JStr ''progress_update'')])) example_running)) =
     Some (JNum 0)"
proof -
  have a: "map_of [(''type'', JStr ''progress_update'')] ''type'' =
             Some (JStr ''progress_update'')"
    and b: "map_of [(''type'', JStr ''progress_update'')] ''progress'' = None"
    and c: "map_of [(''type'', JStr ''progress_update'')] ''message'' = None"
    and d: "map_of [(''type'', JStr ''progress_update'')] ''timestamp'' = None"
    by simp_all
  have e: "currentGeneration example_running \<noteq> None"
    by (simp add: example_running_eq)
  have gid: "generationId (fst example_connected) = Some ''g1''"
    by (simp add: example_connected_def connect_def disconnect_def new_service_def)
  have dec: "decode_progress (fst example_connected) 1500
               (JObj [(''type'', JStr ''progress_update'')]) =
     \<lparr>p_generationId = JStr ''g1'', p_progress = JNum 0, p_step = JStr ''Unknown'',
      p_stepProgress = JNum 0, p_message = Some (JStr ''''), p_timestamp = DateAt 1500\<rparr>"
    by (simp add: decode_progress_def js_defs gid)
  note t = progress_update_defaults
    [OF a b c d, of "fst example_connected" 1500 example_running]
  from t have f: "onmessage_try (fst example_connected) 1500
       (Inr (JObj [(''type'', JStr ''progress_update'')])) example_running =
     Inr (updateProgress
            (decode_progress (fst example_connected) 1500
               (JObj [(''type'', JStr ''progress_update'')])) example_running)"
    by blast
  from t e have g: "map_option gen_progress
     (currentGeneration
        (onmessage (fst example_connected) 1500
           (Inr (JObj [(''type'', JStr ''progress_update'')])) example_running)) =
     Some (JNum 0)"
    by blast
  from a b c d e f [unfolded dec] g show ?thesis by blast
qed

end
